theory Spec2Isabelle
  imports Complex_Main
begin

section \<open>JavaScript values read from the statistics API\<close>

text \<open>
  The bot reads the JSON body of each API response by property name. A statistic is an
  arbitrary JSON value: absent (\<open>undefined\<close> on property read), \<open>null\<close>, a boolean, a
  number, or a nested plain object. A number is held as the rational that is the exact
  value of the IEEE double (\<open>JSON.parse\<close> never yields NaN; infinities and the negative
  zero are not represented). A nested object is known by its heap
  reference only, which is what \<open>===\<close> compares. String-valued statistics are not
  represented; the identity properties (\<open>userName\<close>, \<open>name\<close>, \<open>personaId\<close>, \<open>id\<close>,
  \<open>avatar\<close>) are strings when present, following the declared shape
  \<open>{ personaId: string, name: string, platform: string }\<close> of a tracked player.
\<close>

datatype jsval = JUndefined | JNull | JBool bool | JNum rat | JObj nat

text \<open>A parsed response body: \<open>sfield\<close> reads an identity property (\<open>None\<close> when absent
  or \<open>null\<close>), \<open>field\<close> reads any other property (\<open>JUndefined\<close> when absent).\<close>

record json_object =
  sfield :: "string \<Rightarrow> string option"
  field :: "string \<Rightarrow> jsval"

text \<open>Truthiness (\<open>ToBoolean\<close>) of a statistic and of an optional string.\<close>

fun truthy :: "jsval \<Rightarrow> bool" where
  "truthy JUndefined = False"
| "truthy JNull = False"
| "truthy (JBool b) = b"
| "truthy (JNum r) = (r \<noteq> 0)"
| "truthy (JObj a) = True"

fun truthy_str :: "string option \<Rightarrow> bool" where
  "truthy_str None = False"
| "truthy_str (Some s) = (s \<noteq> [])"

text \<open>Strict equality \<open>===\<close>: values of different types are unequal, primitives compare
  by value, objects by reference.\<close>

fun strict_eq :: "jsval \<Rightarrow> jsval \<Rightarrow> bool" where
  "strict_eq JUndefined JUndefined = True"
| "strict_eq JNull JNull = True"
| "strict_eq (JBool a) (JBool b) = (a = b)"
| "strict_eq (JNum a) (JNum b) = (a = b)"
| "strict_eq (JObj a) (JObj b) = (a = b)"
| "strict_eq _ _ = False"

section \<open>Change detector\<close>

text \<open>\<open>statsChanged(oldStats, newStats)\<close> (lines 240-251). The previous snapshot comes from
  \<open>lastStats.get(playerKey)\<close>: \<open>None\<close> is the \<open>undefined\<close> of a missing cache entry (only
  truthy bodies are ever stored).\<close>

definition keyFields :: "string list" where
  "keyFields = [''kills'', ''deaths'', ''score'', ''wins'', ''losses'', ''rank'']"

definition statsChanged :: "json_object option \<Rightarrow> json_object \<Rightarrow> bool" where
  "statsChanged oldStats newStats =
     (case oldStats of
        None \<Rightarrow> True
      | Some old \<Rightarrow>
          list_ex (\<lambda>f.
            if \<not> strict_eq (field old f) JUndefined \<and> \<not> strict_eq (field newStats f) JUndefined
            then \<not> strict_eq (field old f) (field newStats f)
            else False) keyFields)"

section \<open>Requests, embeds and the surroundings\<close>

text \<open>An HTTP request to \<open>API_BASE_URL\<close>, as its query parameters.\<close>

record request =
  q_name :: "string option"
  q_personaId :: "string option"
  q_platform :: string

text \<open>What one \<open>fetch\<close> does: reject (\<open>FetchThrows\<close>), answer with a status outside 2xx
  (\<open>HttpError\<close>), answer 2xx with a body that \<open>response.json()\<close> rejects (\<open>BadBody\<close>), or
  answer 2xx with a JSON value: \<open>Body None\<close> for a falsy one (\<open>null\<close>, \<open>0\<close>, \<open>""\<close>,
  \<open>false\<close>), \<open>Body (Some d)\<close> for a truthy one with the property reads \<open>d\<close>.\<close>

datatype response = FetchThrows | HttpError | BadBody | Body "json_object option"

text \<open>The embed built by \<open>EmbedBuilder\<close>, as the data it holds (the time stamp of
  \<open>setTimestamp()\<close>, the current time, is left out), and the calls of its setters that
  validate their argument and throw when they refuse it.\<close>

record embed_field =
  fname :: string
  fvalue :: string
  inline :: bool

record embed =
  title :: string
  color :: nat
  footer :: string
  description :: "string option"
  efields :: "embed_field list"
  thumbnail :: "string option"

datatype builder_call =
    SetTitle string
  | SetFooter string
  | SetDescription string
  | AddFields "embed_field list"
  | SetThumbnail string

datatype js_error = TypeError | ValidationError

text \<open>The surroundings of a run. What happens outside the bot: the outcome of the
  \<open>n\<close>-th HTTP request, of the \<open>n\<close>-th \<open>channel.send\<close> and of the \<open>n\<close>-th \<open>writeFileSync\<close>,
  and whether the configured channel is in the channel cache. What the libraries compute:
  \<open>new URL(url).pathname\<close> (\<open>None\<close> when the constructor throws); whether a setter of
  \<open>EmbedBuilder\<close> accepts its argument; \<open>toUpperCase\<close> and \<open>toLowerCase\<close> of a text with
  characters outside ASCII; and the texts the JavaScript engine prints for a number where
  they depend on its binary representation or on its size: \<open>toLocaleString()\<close>,
  \<open>toFixed(f)\<close>, \<open>toString()\<close> and the hours-and-minutes text of the time played.\<close>

record world =
  fetch :: "nat \<Rightarrow> request \<Rightarrow> response"
  send_ok :: "nat \<Rightarrow> bool"
  write_ok :: "nat \<Rightarrow> bool"
  channel :: bool
  pathname_of :: "string \<Rightarrow> string option"
  accepts :: "builder_call \<Rightarrow> bool"
  host_toUpperCase :: "string \<Rightarrow> string"
  host_toLowerCase :: "string \<Rightarrow> string"
  host_toLocaleString :: "rat \<Rightarrow> string"
  host_toFixed :: "nat \<Rightarrow> rat \<Rightarrow> string"
  host_toString :: "rat \<Rightarrow> string"
  host_hours_minutes :: "rat \<Rightarrow> string"

section \<open>Presenter\<close>

text \<open>Decimal digits of a natural number and of an integer.\<close>

definition digit_char :: "nat \<Rightarrow> char" where
  "digit_char d = ''0123456789'' ! d"

fun dec_nat :: "nat \<Rightarrow> string" where
  "dec_nat n = (if n < 10 then [digit_char n] else dec_nat (n div 10) @ [digit_char (n mod 10)])"

declare dec_nat.simps [simp del]

definition dec_int :: "int \<Rightarrow> string" where
  "dec_int i = (if i < 0 then ''-'' @ dec_nat (nat (- i)) else dec_nat (nat i))"

definition round_half_up :: "rat \<Rightarrow> nat" where
  "round_half_up x = nat \<lfloor>x + 1 / 2\<rfloor>"

definition pad_left :: "nat \<Rightarrow> string \<Rightarrow> string" where
  "pad_left n s = replicate (n - length s) CHR ''0'' @ s"

definition sign_str :: "rat \<Rightarrow> string" where
  "sign_str x = (if x < 0 then ''-'' else [])"

fun group3_rev :: "string \<Rightarrow> string" where
  "group3_rev (a # b # c # d # rest) = a # b # c # CHR '','' # group3_rev (d # rest)"
| "group3_rev s = s"

definition group3 :: "string \<Rightarrow> string" where
  "group3 s = rev (group3_rev (rev s))"

text \<open>A number of the program is an IEEE double, held as the rational that is its exact
  value. \<open>safe_integer\<close>: an integer below \<open>2^53\<close> in magnitude. \<open>binary53\<close>: a value
  \<open>m / 2^j\<close> with \<open>|m| < 2^53\<close> and \<open>j \<le> 1074\<close>, that is, the exact value of a double below
  \<open>2^53\<close> in magnitude.\<close>

definition safe_integer :: "rat \<Rightarrow> bool" where
  "safe_integer x = (x = of_int \<lfloor>x\<rfloor> \<and> \<bar>x\<bar> < 2 ^ 53)"

definition binary53 :: "rat \<Rightarrow> bool" where
  "binary53 x =
     list_ex (\<lambda>j. x * 2 ^ j = of_int \<lfloor>x * 2 ^ j\<rfloor> \<and> \<bar>x * 2 ^ j\<bar> < 2 ^ 53) [0 ..< 1075]"

text \<open>\<open>Number.prototype.toLocaleString()\<close>, in the default \<open>en-US\<close> locale: a safe integer
  prints its digits in groups of three separated by commas; any other number prints as
  the engine says.\<close>

definition num_toLocaleString :: "world \<Rightarrow> rat \<Rightarrow> string" where
  "num_toLocaleString w x =
     (if safe_integer x then sign_str x @ group3 (dec_nat (nat \<bar>\<lfloor>x\<rfloor>\<bar>))
      else host_toLocaleString w x)"

text \<open>\<open>Number.prototype.toFixed(f)\<close> on the exact value of a double below \<open>2^53\<close>: the
  sign, then the integer \<open>n\<close> for which \<open>n / 10^f\<close> is nearest to the magnitude (the larger
  one of two), printed with \<open>f\<close> decimals. Any other number prints as the engine says.\<close>

definition num_toFixed :: "world \<Rightarrow> nat \<Rightarrow> rat \<Rightarrow> string" where
  "num_toFixed w f x =
     (if binary53 x
      then (let m = pad_left (f + 1) (dec_nat (round_half_up (\<bar>x\<bar> * 10 ^ f)))
            in sign_str x @ take (length m - f) m
               @ (if f = 0 then [] else ''.'' @ drop (length m - f) m))
      else host_toFixed w f x)"

text \<open>\<open>Number.prototype.toString()\<close>: a safe integer prints its decimal digits; any other
  number prints as the engine says.\<close>

definition num_toString :: "world \<Rightarrow> rat \<Rightarrow> string" where
  "num_toString w x = (if safe_integer x then dec_int \<lfloor>x\<rfloor> else host_toString w x)"

text \<open>The three methods as called on a statistic of any type: a call on \<open>null\<close> or
  \<open>undefined\<close> throws, \<open>toFixed\<close> exists on numbers only, and a plain object prints as
  \<open>[object Object]\<close>.\<close>

fun toLocaleString :: "world \<Rightarrow> jsval \<Rightarrow> js_error + string" where
  "toLocaleString w JUndefined = Inl TypeError"
| "toLocaleString w JNull = Inl TypeError"
| "toLocaleString w (JBool b) = Inr (if b then ''true'' else ''false'')"
| "toLocaleString w (JNum r) = Inr (num_toLocaleString w r)"
| "toLocaleString w (JObj a) = Inr ''[object Object]''"

fun toFixed :: "world \<Rightarrow> nat \<Rightarrow> jsval \<Rightarrow> js_error + string" where
  "toFixed w f (JNum r) = Inr (num_toFixed w f r)"
| "toFixed w f _ = Inl TypeError"

fun toString_js :: "world \<Rightarrow> jsval \<Rightarrow> js_error + string" where
  "toString_js w JUndefined = Inl TypeError"
| "toString_js w JNull = Inl TypeError"
| "toString_js w (JBool b) = Inr (if b then ''true'' else ''false'')"
| "toString_js w (JNum r) = Inr (num_toString w r)"
| "toString_js w (JObj a) = Inr ''[object Object]''"

text \<open>\<open>ToNumber\<close>, with \<open>None\<close> for NaN, and the text of the time-played field,
  \<open>`${hours}h ${minutes}m`\<close> with \<open>hours = Math.floor(t / 3600)\<close> and
  \<open>minutes = Math.floor((t % 3600) / 60)\<close>, where \<open>%\<close> takes the sign of the dividend. For
  an integer number of seconds below \<open>2^32\<close> in magnitude the two divisions are far from
  any rounding; any other number prints as the engine says.\<close>

fun ToNumber :: "jsval \<Rightarrow> rat option" where
  "ToNumber JUndefined = None"
| "ToNumber JNull = Some 0"
| "ToNumber (JBool b) = Some (if b then 1 else 0)"
| "ToNumber (JNum r) = Some r"
| "ToNumber (JObj a) = None"

definition js_rem :: "rat \<Rightarrow> rat \<Rightarrow> rat" where
  "js_rem a b = a - b * of_int (if 0 \<le> a / b then \<lfloor>a / b\<rfloor> else \<lceil>a / b\<rceil>)"

definition timePlayed_text :: "world \<Rightarrow> jsval \<Rightarrow> string" where
  "timePlayed_text w v =
     (case ToNumber v of
        None \<Rightarrow> ''NaNh NaNm''
      | Some t \<Rightarrow>
          if t = of_int \<lfloor>t\<rfloor> \<and> \<bar>t\<bar> < 2 ^ 32
          then dec_int \<lfloor>t / 3600\<rfloor> @ ''h '' @ dec_int \<lfloor>js_rem t 3600 / 60\<rfloor> @ ''m''
          else host_hours_minutes w t)"

text \<open>\<open>String.prototype.toUpperCase\<close> and \<open>toLowerCase\<close>: on a text of ASCII characters
  only (no byte with the top bit set) they map the 26 letters and nothing else; on any
  other text they are what the engine computes.\<close>

definition lower_letters :: string where
  "lower_letters = ''abcdefghijklmnopqrstuvwxyz''"

definition upper_letters :: string where
  "upper_letters = ''ABCDEFGHIJKLMNOPQRSTUVWXYZ''"

definition toUpperChar :: "char \<Rightarrow> char" where
  "toUpperChar c = (case map_of (zip lower_letters upper_letters) c of Some u \<Rightarrow> u | None \<Rightarrow> c)"

definition toLowerChar :: "char \<Rightarrow> char" where
  "toLowerChar c = (case map_of (zip upper_letters lower_letters) c of Some l \<Rightarrow> l | None \<Rightarrow> c)"

definition is_ascii :: "string \<Rightarrow> bool" where
  "is_ascii s = list_all (\<lambda>c. \<not> digit7 c) s"

definition toUpperCase :: "world \<Rightarrow> string \<Rightarrow> string" where
  "toUpperCase w s = (if is_ascii s then map toUpperChar s else host_toUpperCase w s)"

definition toLowerCase :: "world \<Rightarrow> string \<Rightarrow> string" where
  "toLowerCase w s = (if is_ascii s then map toLowerChar s else host_toLowerCase w s)"

text \<open>\<open>a || b\<close> on optional strings.\<close>

definition str_or :: "string option \<Rightarrow> string option \<Rightarrow> string option" where
  "str_or a b = (if truthy_str a then a else b)"

definition mk_field :: "string \<Rightarrow> js_error + string \<Rightarrow> js_error + embed_field" where
  "mk_field n v = (case v of Inl e \<Rightarrow> Inl e | Inr s \<Rightarrow> Inr \<lparr>fname = n, fvalue = s, inline = True\<rparr>)"

text \<open>One conditional \<open>fields.push\<close>: nothing when the property is \<open>undefined\<close>.\<close>

definition when_defined :: "jsval \<Rightarrow> string \<Rightarrow> (jsval \<Rightarrow> js_error + string) \<Rightarrow> (js_error + embed_field) list" where
  "when_defined v n fmt = (if \<not> strict_eq v JUndefined then [mk_field n (fmt v)] else [])"

text \<open>The statements run in order, so the first one that throws decides.\<close>

fun collect :: "('e + 'a) list \<Rightarrow> 'e + 'a list" where
  "collect [] = Inr []"
| "collect (Inl e # rest) = Inl e"
| "collect (Inr x # rest) = (case collect rest of Inl e \<Rightarrow> Inl e | Inr xs \<Rightarrow> Inr (x # xs))"

definition append_pct :: "js_error + string \<Rightarrow> js_error + string" where
  "append_pct v = (case v of Inl e \<Rightarrow> Inl e | Inr s \<Rightarrow> Inr (s @ ''%''))"

text \<open>The \<open>fields\<close> array of lines 185-221.\<close>

definition stat_fields :: "world \<Rightarrow> json_object \<Rightarrow> (js_error + embed_field) list" where
  "stat_fields w stats =
     when_defined (field stats ''kills'')
       ([CHR 0xF0, CHR 0x9F, CHR 0x92, CHR 0x80] @ '' Kills'') (toLocaleString w)
   @ when_defined (field stats ''deaths'')
       ([CHR 0xE2, CHR 0x98, CHR 0xA0, CHR 0xEF, CHR 0xB8, CHR 0x8F] @ '' Deaths'') (toLocaleString w)
   @ when_defined (field stats ''kdRatio'')
       ([CHR 0xF0, CHR 0x9F, CHR 0x93, CHR 0x8A] @ '' K/D Ratio'') (toFixed w 2)
   @ when_defined (field stats ''score'')
       ([CHR 0xE2, CHR 0xAD, CHR 0x90] @ '' Score'') (toLocaleString w)
   @ when_defined (field stats ''wins'')
       ([CHR 0xF0, CHR 0x9F, CHR 0x8F, CHR 0x86] @ '' Wins'') (toLocaleString w)
   @ when_defined (field stats ''losses'')
       ([CHR 0xE2, CHR 0x9D, CHR 0x8C] @ '' Losses'') (toLocaleString w)
   @ when_defined (field stats ''winPercent'')
       ([CHR 0xF0, CHR 0x9F, CHR 0x93, CHR 0x88] @ '' Win %'') (\<lambda>v. append_pct (toFixed w 1 v))
   @ when_defined (field stats ''killsPerMinute'')
       ([CHR 0xE2, CHR 0x9A, CHR 0xA1] @ '' Kills/Min'') (toFixed w 2)
   @ when_defined (field stats ''timePlayed'')
       ([CHR 0xE2, CHR 0x8F, CHR 0xB1, CHR 0xEF, CHR 0xB8, CHR 0x8F] @ '' Time Played'')
       (\<lambda>v. Inr (timePlayed_text w v))
   @ when_defined (field stats ''rank'')
       ([CHR 0xF0, CHR 0x9F, CHR 0x8E, CHR 0x96, CHR 0xEF, CHR 0xB8, CHR 0x8F] @ '' Rank'')
       (toString_js w)
   @ when_defined (field stats ''scorePerMinute'')
       ([CHR 0xF0, CHR 0x9F, CHR 0x93, CHR 0x8A] @ '' SPM'') (toFixed w 0)"

text \<open>The texts handed to the builder: title, footer, description (when the snapshot
  has a \<open>userName\<close> or a \<open>name\<close>) and thumbnail (when it has an \<open>avatar\<close>).\<close>

definition embed_title :: "string \<Rightarrow> string" where
  "embed_title playerName =
     [CHR 0xF0, CHR 0x9F, CHR 0x8E, CHR 0xAE] @ '' '' @ playerName @ [CHR 0x27]
       @ ''s Battlefield 6 Stats''"

definition embed_footer :: "world \<Rightarrow> string \<Rightarrow> string" where
  "embed_footer w platform = ''Platform: '' @ toUpperCase w platform"

definition embed_description :: "json_object \<Rightarrow> string option" where
  "embed_description stats =
     (if truthy_str (sfield stats ''userName'') \<or> truthy_str (sfield stats ''name'')
      then Some (''**Player:** '' @ the (str_or (sfield stats ''userName'') (sfield stats ''name'')))
      else None)"

definition embed_thumbnail :: "json_object \<Rightarrow> string option" where
  "embed_thumbnail stats =
     (if truthy_str (sfield stats ''avatar'') then sfield stats ''avatar'' else None)"

text \<open>\<open>createStatsEmbed\<close> (lines 172-232), statement by statement: \<open>setTitle\<close> and
  \<open>setFooter\<close>, \<open>setDescription\<close>, the \<open>fields\<close> array, \<open>addFields\<close> of its first 25
  entries, \<open>setThumbnail\<close>. The first statement that throws ends the call.\<close>

definition createStatsEmbed :: "world \<Rightarrow> json_object \<Rightarrow> string \<Rightarrow> string \<Rightarrow> js_error + embed" where
  "createStatsEmbed w stats playerName platform =
     (if \<not> accepts w (SetTitle (embed_title playerName)) then Inl ValidationError
      else if \<not> accepts w (SetFooter (embed_footer w platform)) then Inl ValidationError
      else if (case embed_description stats of
                 None \<Rightarrow> False | Some text \<Rightarrow> \<not> accepts w (SetDescription text))
        then Inl ValidationError
      else case collect (stat_fields w stats) of
        Inl e \<Rightarrow> Inl e
      | Inr fs \<Rightarrow>
          (if \<not> accepts w (AddFields (take 25 fs)) then Inl ValidationError
           else if (case embed_thumbnail stats of
                      None \<Rightarrow> False | Some url \<Rightarrow> \<not> accepts w (SetThumbnail url))
             then Inl ValidationError
           else Inr \<lparr>title = embed_title playerName,
                     color = 0x0099FF,
                     footer = embed_footer w platform,
                     description = embed_description stats,
                     efields = take 25 fs,
                     thumbnail = embed_thumbnail stats\<rparr>))"

definition snapshot_100_50_2 :: json_object where
  "snapshot_100_50_2 =
     \<lparr>sfield = (\<lambda>_. None),
      field = (\<lambda>_. JUndefined)(''kills'' := JNum 100, ''deaths'' := JNum 50, ''kdRatio'' := JNum 2)\<rparr>"

section \<open>Tracked players and the bot's state\<close>

text \<open>A tracked player, \<open>{ personaId: string, name: string, platform: string }\<close>; the
  \<open>personaId\<close> may be missing or \<open>null\<close> in the players file (\<open>None\<close>).\<close>

record player =
  name :: string
  platform :: string
  personaId :: "string option"

datatype reply =
    UsageAdd
  | InvalidUrl
  | LookingUp string
  | NotFoundAnyPlatform string
  | UsageTrack
  | NotFoundById string
  | AlreadyTracked string string
  | PlayerAdded string string string nat
  | UsageUntrack
  | NotTracked string
  | Removed string string

text \<open>The module state (\<open>trackedPlayers\<close>, \<open>lastStats\<close>), the players file as the list
  it parses to (\<open>None\<close> while it does not exist), and what the bot has done so far: the
  HTTP requests issued, the milliseconds spent in \<open>setTimeout\<close> pauses, the embeds posted to
  the channel, the number of \<open>channel.send\<close> and \<open>writeFileSync\<close> calls, and the replies
  to commands (\<open>message.reply\<close> is taken to resolve). A poll pass and a command handler
  are each followed on their own, from start to end, with nothing else of the bot running
  in between.\<close>

record bot =
  trackedPlayers :: "player list"
  lastStats :: "string \<Rightarrow> json_object option"
  playersFile :: "player list option"
  requests :: "request list"
  slept :: nat
  posted :: "embed list"
  sends :: nat
  writes :: nat
  replies :: "reply list"

text \<open>\<open>saveTrackedPlayers\<close> (lines 55-61): a failed write is caught and logged, and
  is taken to leave the file as it was.\<close>

definition saveTrackedPlayers :: "world \<Rightarrow> bot \<Rightarrow> bot" where
  "saveTrackedPlayers w st =
     st\<lparr>writes := writes st + 1,
        playersFile := (if write_ok w (writes st) then Some (trackedPlayers st) else playersFile st)\<rparr>"

definition do_fetch :: "world \<Rightarrow> request \<Rightarrow> bot \<Rightarrow> response \<times> bot" where
  "do_fetch w req st = (fetch w (length (requests st)) req, st\<lparr>requests := requests st @ [req]\<rparr>)"

definition sleep :: "nat \<Rightarrow> bot \<Rightarrow> bot" where
  "sleep ms st = st\<lparr>slept := slept st + ms\<rparr>"

definition send_reply :: "reply \<Rightarrow> bot \<Rightarrow> bot" where
  "send_reply r st = st\<lparr>replies := replies st @ [r]\<rparr>"

section \<open>Stats client\<close>


section \<open>URL parsing\<close>

fun split_on :: "char \<Rightarrow> string \<Rightarrow> string list" where
  "split_on c [] = [[]]"
| "split_on c (x # xs) =
     (if x = c then [] # split_on c xs
      else (case split_on c xs of [] \<Rightarrow> [[x]] | r # rs \<Rightarrow> (x # r) # rs))"

text \<open>\<open>parseTrackerUrl\<close> (lines 97-125): \<open>pathname.split('/').filter(p => p)\<close>, the
  test \<open>/^\d+$/\<close> on the third part, and \<open>null\<close> when \<open>new URL\<close> throws.\<close>

definition pathParts :: "string \<Rightarrow> string list" where
  "pathParts path = filter (\<lambda>p. p \<noteq> []) (split_on CHR ''/'' path)"

definition is_digit :: "char \<Rightarrow> bool" where
  "is_digit c = (c \<in> set ''0123456789'')"

definition all_digits :: "string \<Rightarrow> bool" where
  "all_digits s = (s \<noteq> [] \<and> list_all is_digit s)"

definition parseTrackerUrl :: "world \<Rightarrow> string \<Rightarrow> string option" where
  "parseTrackerUrl w url =
     (case pathname_of w url of
        None \<Rightarrow> None
      | Some path \<Rightarrow>
          (let parts = pathParts path in
           if length parts \<ge> 3 \<and> parts ! 0 = ''bf6'' \<and> parts ! 1 = ''profile''
           then (let thirdPart = parts ! 2 in
                 if all_digits thirdPart then Some thirdPart else None)
           else None))"

section \<open>Search and the per-platform probes\<close>

definition platforms :: "string list" where
  "platforms = [''pc'', ''xbox'', ''psn'']"

text \<open>\<open>data && (data.userName || data.name || data.personaId)\<close>, the test of lines 144,
  416 and 483.\<close>

definition recognizable :: "json_object option \<Rightarrow> bool" where
  "recognizable data =
     (case data of
        None \<Rightarrow> False
      | Some d \<Rightarrow> truthy_str (sfield d ''userName'') \<or> truthy_str (sfield d ''name'')
                  \<or> truthy_str (sfield d ''personaId''))"

definition js_or :: "jsval \<Rightarrow> jsval \<Rightarrow> jsval" where
  "js_or a b = (if truthy a then a else b)"

record search_result = player +
  rank :: jsval
  kills :: jsval

definition search_entry :: "json_object \<Rightarrow> string \<Rightarrow> string \<Rightarrow> search_result" where
  "search_entry d playerName plat =
     \<lparr>name = the (str_or (sfield d ''userName'') (str_or (sfield d ''name'') (Some playerName))),
      platform = plat,
      personaId = str_or (sfield d ''personaId'') (str_or (sfield d ''id'') None),
      rank = js_or (field d ''rank'') JNull,
      kills = js_or (field d ''kills'') JNull\<rparr>"

text \<open>\<open>searchPlayers\<close> (lines 132-163): the pause is inside the \<open>try\<close>, after the
  \<open>if\<close>; an exception of \<open>fetch\<close> or of \<open>response.json()\<close> goes to the next
  platform at once.\<close>

fun search_loop ::
  "world \<Rightarrow> string \<Rightarrow> string list \<Rightarrow> search_result list \<Rightarrow> bot \<Rightarrow> search_result list \<times> bot" where
  "search_loop w playerName [] results st = (results, st)"
| "search_loop w playerName (plat # rest) results st =
     (case do_fetch w \<lparr>q_name = Some playerName, q_personaId = None, q_platform = plat\<rparr> st of
        (FetchThrows, st1) \<Rightarrow> search_loop w playerName rest results st1
      | (HttpError, st1) \<Rightarrow> search_loop w playerName rest results (sleep 500 st1)
      | (BadBody, st1) \<Rightarrow> search_loop w playerName rest results st1
      | (Body data, st1) \<Rightarrow>
          (if recognizable data
           then search_loop w playerName rest
                  (results @ [search_entry (the data) playerName plat]) (sleep 500 st1)
           else search_loop w playerName rest results (sleep 500 st1)))"

definition searchPlayers :: "world \<Rightarrow> string \<Rightarrow> bot \<Rightarrow> search_result list \<times> bot" where
  "searchPlayers w playerName st = search_loop w playerName platforms [] st"

definition found_player :: "json_object \<Rightarrow> string \<Rightarrow> string \<Rightarrow> player" where
  "found_player d playerId plat =
     \<lparr>name = the (str_or (sfield d ''userName'') (str_or (sfield d ''name'') (Some ''Unknown''))),
      platform = plat,
      personaId = str_or (sfield d ''personaId'') (str_or (sfield d ''id'') (Some playerId))\<rparr>"

text \<open>The probe loop of the \<open>!add\<close> handler (lines 409-430): it pauses 500 ms after an
  answer that is not a player, and goes straight on after an exception.\<close>

fun add_probe :: "world \<Rightarrow> string \<Rightarrow> string list \<Rightarrow> bot \<Rightarrow> player option \<times> bot" where
  "add_probe w playerId [] st = (None, st)"
| "add_probe w playerId (plat # rest) st =
     (case do_fetch w \<lparr>q_name = None, q_personaId = Some playerId, q_platform = plat\<rparr> st of
        (FetchThrows, st1) \<Rightarrow> add_probe w playerId rest st1
      | (HttpError, st1) \<Rightarrow> add_probe w playerId rest (sleep 500 st1)
      | (BadBody, st1) \<Rightarrow> add_probe w playerId rest st1
      | (Body data, st1) \<Rightarrow>
          (if recognizable data then (Some (found_player (the data) playerId plat), st1)
           else add_probe w playerId rest (sleep 500 st1)))"

text \<open>The probe loop of the \<open>!track\<close> handler (lines 476-495): no pause.\<close>

fun track_probe :: "world \<Rightarrow> string \<Rightarrow> string list \<Rightarrow> bot \<Rightarrow> player option \<times> bot" where
  "track_probe w playerId [] st = (None, st)"
| "track_probe w playerId (plat # rest) st =
     (case do_fetch w \<lparr>q_name = None, q_personaId = Some playerId, q_platform = plat\<rparr> st of
        (FetchThrows, st1) \<Rightarrow> track_probe w playerId rest st1
      | (HttpError, st1) \<Rightarrow> track_probe w playerId rest st1
      | (BadBody, st1) \<Rightarrow> track_probe w playerId rest st1
      | (Body data, st1) \<Rightarrow>
          (if recognizable data then (Some (found_player (the data) playerId plat), st1)
           else track_probe w playerId rest st1))"

section \<open>Poll loop\<close>

text \<open>The cache key of lines 271 and 576:
  \<open>player.personaId || `${player.name}_${player.platform}`\<close>.\<close>

definition playerKey :: "player \<Rightarrow> string" where
  "playerKey p = (if truthy_str (personaId p) then the (personaId p) else name p @ ''_'' @ platform p)"





section \<open>Command handlers\<close>

text \<open>\<open>trackedPlayers.find(p => (p.personaId && p.personaId === foundPlayer.personaId) ||
  (p.name === foundPlayer.name && p.platform === foundPlayer.platform))\<close>, the same text
  in the \<open>!add\<close> and the \<open>!track\<close> handler.\<close>

definition alreadyTracked :: "player list \<Rightarrow> player \<Rightarrow> player option" where
  "alreadyTracked ps foundPlayer =
     find (\<lambda>p. (truthy_str (personaId p) \<and> personaId p = personaId foundPlayer)
                \<or> (name p = name foundPlayer \<and> platform p = platform foundPlayer)) ps"

text \<open>The second half of both handlers (lines 436-462 and 502-528, the same text): the
  duplicate check, then \<open>push\<close> and \<open>saveTrackedPlayers()\<close>, then the reply.\<close>

definition track_found :: "world \<Rightarrow> player \<Rightarrow> bot \<Rightarrow> bot" where
  "track_found w foundPlayer st =
     (case alreadyTracked (trackedPlayers st) foundPlayer of
        Some p \<Rightarrow>
          send_reply (AlreadyTracked (name foundPlayer) (toUpperCase w (platform foundPlayer))) st
      | None \<Rightarrow>
          (let st1 = st\<lparr>trackedPlayers := trackedPlayers st @ [foundPlayer]\<rparr>;
               st2 = saveTrackedPlayers w st1
           in send_reply (PlayerAdded (name foundPlayer) (toUpperCase w (platform foundPlayer))
                            (case str_or (personaId foundPlayer) (Some ''N/A'') of
                               None \<Rightarrow> [] | Some s \<Rightarrow> s)
                            (length (trackedPlayers st2))) st2))"

text \<open>The \<open>!add\<close> handler (lines 390-463) on the trimmed text after the command
  word.\<close>

definition add_cmd :: "world \<Rightarrow> string \<Rightarrow> bot \<Rightarrow> bot" where
  "add_cmd w url st =
     (if url = [] then send_reply UsageAdd st
      else if \<not> truthy_str (parseTrackerUrl w url) then send_reply InvalidUrl st
      else (let playerId = the (parseTrackerUrl w url) in
            case add_probe w playerId platforms (send_reply (LookingUp playerId) st) of
              (None, st1) \<Rightarrow> send_reply (NotFoundAnyPlatform playerId) st1
            | (Some foundPlayer, st1) \<Rightarrow> track_found w foundPlayer st1))"

text \<open>The \<open>!track\<close> handler (lines 466-529).\<close>

definition track_cmd :: "world \<Rightarrow> string \<Rightarrow> bot \<Rightarrow> bot" where
  "track_cmd w playerId st =
     (if playerId = [] then send_reply UsageTrack st
      else case track_probe w playerId platforms st of
        (None, st1) \<Rightarrow> send_reply (NotFoundById playerId) st1
      | (Some foundPlayer, st1) \<Rightarrow> track_found w foundPlayer st1)"

text \<open>\<open>Array.prototype.findIndex\<close>, with \<open>None\<close> for \<open>-1\<close>.\<close>

fun findIndex :: "('a \<Rightarrow> bool) \<Rightarrow> 'a list \<Rightarrow> nat option" where
  "findIndex P [] = None"
| "findIndex P (x # xs) = (if P x then Some 0 else map_option Suc (findIndex P xs))"

definition untrack_match :: "world \<Rightarrow> string \<Rightarrow> player \<Rightarrow> bool" where
  "untrack_match w playerId p =
     ((truthy_str (personaId p) \<and> personaId p = Some playerId)
      \<or> toLowerCase w (name p) = toLowerCase w playerId)"

text \<open>The \<open>!untrack\<close> handler (lines 556-581); \<open>splice(index, 1)\<close> removes the
  element at \<open>index\<close>.\<close>

definition untrack_cmd :: "world \<Rightarrow> string \<Rightarrow> bot \<Rightarrow> bot" where
  "untrack_cmd w playerId st =
     (if playerId = [] then send_reply UsageUntrack st
      else case findIndex (untrack_match w playerId) (trackedPlayers st) of
        None \<Rightarrow> send_reply (NotTracked playerId) st
      | Some index \<Rightarrow>
          (let removedPlayer = trackedPlayers st ! index;
               st1 = st\<lparr>trackedPlayers :=
                         take index (trackedPlayers st) @ drop (index + 1) (trackedPlayers st)\<rparr>;
               st2 = saveTrackedPlayers w st1;
               st3 = st2\<lparr>lastStats := (lastStats st2)(playerKey removedPlayer := None)\<rparr>
           in send_reply (Removed (name removedPlayer) (toUpperCase w (platform removedPlayer)))
                st3))"

section \<open>Notions used in the properties\<close>

text \<open>A 2xx answer whose body is truthy and has a non-empty \<open>userName\<close>, \<open>name\<close> or
  \<open>personaId\<close>; and a 2xx answer whose body defines one of the three, whatever its
  value.\<close>

definition answers_player :: "response \<Rightarrow> bool" where
  "answers_player r =
     (case r of
        Body (Some d) \<Rightarrow> truthy_str (sfield d ''userName'') \<or> truthy_str (sfield d ''name'')
                         \<or> truthy_str (sfield d ''personaId'')
      | _ \<Rightarrow> False)"

definition defines_player :: "response \<Rightarrow> bool" where
  "defines_player r =
     (case r of
        Body (Some d) \<Rightarrow> sfield d ''userName'' \<noteq> None \<or> sfield d ''name'' \<noteq> None
                         \<or> sfield d ''personaId'' \<noteq> None
      | _ \<Rightarrow> False)"


text \<open>Two entries share a \<open>personaId\<close> when the first has one and the second has the same;
  they share name and platform when both are equal. A list of players is unique when no
  two of its entries do either.\<close>

definition same_persona :: "player \<Rightarrow> player \<Rightarrow> bool" where
  "same_persona p q = (truthy_str (personaId p) \<and> personaId p = personaId q)"

definition same_name_platform :: "player \<Rightarrow> player \<Rightarrow> bool" where
  "same_name_platform p q = (name p = name q \<and> platform p = platform q)"

fun unique_players :: "player list \<Rightarrow> bool" where
  "unique_players [] = True"
| "unique_players (p # ps) =
     (list_all (\<lambda>q. \<not> same_persona p q \<and> \<not> same_name_platform p q) ps \<and> unique_players ps)"

section \<open>Example runs\<close>

text \<open>Concrete surroundings and states on which the properties below are exercised.\<close>

definition snap_before :: json_object where
  "snap_before =
     \<lparr>sfield = (\<lambda>_. None),
      field = (\<lambda>_. JUndefined)(''kills'' := JNum 7, ''timePlayed'' := JNum 60)\<rparr>"

definition snap_after :: json_object where
  "snap_after =
     \<lparr>sfield = (\<lambda>_. None),
      field = (\<lambda>_. JUndefined)(''kills'' := JNum 7, ''wins'' := JNum 3,
                                   ''timePlayed'' := JNum 90)\<rparr>"

definition quiet_world :: world where
  "quiet_world =
     \<lparr>fetch = (\<lambda>_ _. FetchThrows), send_ok = (\<lambda>_. True), write_ok = (\<lambda>_. True), channel = True,
      pathname_of = (\<lambda>_. None), accepts = (\<lambda>_. True),
      host_toUpperCase = (\<lambda>s. s), host_toLowerCase = (\<lambda>s. s),
      host_toLocaleString = (\<lambda>_. []), host_toFixed = (\<lambda>_ _. []), host_toString = (\<lambda>_. []),
      host_hours_minutes = (\<lambda>_. [])\<rparr>"

definition url_world :: world where
  "url_world =
     quiet_world\<lparr>pathname_of := map_of
        [(''https://site/bf6/profile/2481313248/overview'', ''/bf6/profile/2481313248/overview''),
         (''https://site/bf6/profile/pc/SomeName'', ''/bf6/profile/pc/SomeName'')]\<rparr>"

definition bob :: player where
  "bob = \<lparr>name = ''Bob'', platform = ''pc'', personaId = Some ''111''\<rparr>"

definition alice :: player where
  "alice = \<lparr>name = ''Alice'', platform = ''xbox'', personaId = None\<rparr>"

definition stats_a :: json_object where
  "stats_a = \<lparr>sfield = (\<lambda>_. None)(''userName'' := Some ''Alice''),
              field = (\<lambda>_. JUndefined)(''kills'' := JNum 10)\<rparr>"

definition two_tracked :: bot where
  "two_tracked =
     \<lparr>trackedPlayers = [bob, alice],
      lastStats = Map.empty(''111'' := Some stats_a, ''Alice_xbox'' := Some stats_a),
      playersFile = Some [bob, alice], requests = [], slept = 0, posted = [], sends = 0,
      writes = 0, replies = []\<rparr>"

definition body_bob2 :: json_object where
  "body_bob2 = \<lparr>sfield = (\<lambda>_. None)(''userName'' := Some ''Bob'', ''personaId'' := Some ''222''),
                field = (\<lambda>_. JUndefined)(''kills'' := JNum 5)\<rparr>"

definition body_carol :: json_object where
  "body_carol = \<lparr>sfield = (\<lambda>_. None)(''userName'' := Some ''Carol''),
                 field = (\<lambda>_. JUndefined)(''kills'' := JNum 8)\<rparr>"

definition body_zed :: json_object where
  "body_zed = \<lparr>sfield = (\<lambda>_. None)(''name'' := Some ''Zed''),
               field = (\<lambda>_. JUndefined)\<rparr>"

definition demo_api :: "request \<Rightarrow> response" where
  "demo_api req =
     (if q_personaId req = Some ''222'' \<and> q_platform req = ''pc'' then Body (Some body_bob2)
      else if q_personaId req = Some ''2481313248'' \<and> q_platform req = ''psn''
        then Body (Some body_carol)
      else if q_personaId req = Some ''Alice_xbox'' \<and> q_platform req = ''pc''
        then Body (Some body_zed)
      else if q_platform req = ''pc'' then FetchThrows
      else HttpError)"

definition demo_world :: world where
  "demo_world = url_world\<lparr>fetch := (\<lambda>_. demo_api)\<rparr>"

definition carol :: player where
  "carol = \<lparr>name = ''Carol'', platform = ''psn'', personaId = Some ''2481313248''\<rparr>"

definition zed :: player where
  "zed = \<lparr>name = ''Zed'', platform = ''pc'', personaId = Some ''Alice_xbox''\<rparr>"

definition bob2 :: player where
  "bob2 = \<lparr>name = ''Bob'', platform = ''pc'', personaId = Some ''222''\<rparr>"

definition carol_old :: player where
  "carol_old = \<lparr>name = ''Carol'', platform = ''psn'', personaId = Some ''999''\<rparr>"

definition alice_us :: player where
  "alice_us = \<lparr>name = ''Alice_'', platform = ''xbox'', personaId = None\<rparr>"

definition clash_tracked :: bot where
  "clash_tracked = two_tracked\<lparr>trackedPlayers := [alice, alice_us]\<rparr>"

definition bobs_tracked :: bot where
  "bobs_tracked = two_tracked\<lparr>trackedPlayers := [bob, alice, bob2]\<rparr>"

definition robert :: player where
  "robert = \<lparr>name = ''Robert'', platform = ''xbox'', personaId = Some ''222''\<rparr>"

definition caz :: player where
  "caz = \<lparr>name = ''Caz'', platform = ''pc'', personaId = Some ''2481313248''\<rparr>"

definition renamed_tracked :: bot where
  "renamed_tracked = two_tracked\<lparr>trackedPlayers := [alice, robert, caz]\<rparr>"

definition three_tracked :: bot where
  "three_tracked = two_tracked\<lparr>trackedPlayers := [bob, alice, carol_old]\<rparr>"

definition body_empty_name :: json_object where
  "body_empty_name = \<lparr>sfield = (\<lambda>_. None)(''userName'' := Some []),
                      field = (\<lambda>_. JUndefined)(''kills'' := JNum 3)\<rparr>"

definition search_api :: "request \<Rightarrow> response" where
  "search_api req =
     (if q_platform req = ''pc'' then FetchThrows
      else if q_platform req = ''xbox'' then Body (Some body_carol)
      else Body (Some body_empty_name))"

definition search_world :: world where
  "search_world = demo_world\<lparr>fetch := (\<lambda>_. search_api)\<rparr>"

definition stats_b :: json_object where
  "stats_b = \<lparr>sfield = (\<lambda>_. None)(''userName'' := Some ''Alice''),
              field = (\<lambda>_. JUndefined)(''kills'' := JNum 11)\<rparr>"

definition poll_world :: world where
  "poll_world =
     demo_world\<lparr>fetch := (\<lambda>n _. if n = 0 then HttpError else Body (Some stats_b))\<rparr>"

definition stats_null :: json_object where
  "stats_null = \<lparr>sfield = (\<lambda>_. None), field = (\<lambda>_. JUndefined)(''kills'' := JNull)\<rparr>"

definition rev_world :: world where
  "rev_world =
     demo_world\<lparr>fetch := (\<lambda>n _. if n = 0 then Body (Some stats_b) else HttpError)\<rparr>"

definition same_world :: world where
  "same_world = demo_world\<lparr>fetch := (\<lambda>_ _. Body (Some stats_a))\<rparr>"

definition mute_world :: world where
  "mute_world = poll_world\<lparr>send_ok := (\<lambda>_. False)\<rparr>"

definition null_world :: world where
  "null_world = demo_world\<lparr>fetch := (\<lambda>_ _. Body (Some stats_null))\<rparr>"



section \<open>Properties\<close>

subsection \<open>The example surroundings\<close>

lemma worlds_sel:
  "fetch quiet_world n r = FetchThrows" "fetch url_world n r = FetchThrows"
  "fetch demo_world n = demo_api" "fetch search_world n = search_api"
  "fetch poll_world n r = (if n = 0 then HttpError else Body (Some stats_b))"
  "pathname_of quiet_world u = None"
  "pathname_of url_world = map_of
     [(''https://site/bf6/profile/2481313248/overview'', ''/bf6/profile/2481313248/overview''),
      (''https://site/bf6/profile/pc/SomeName'', ''/bf6/profile/pc/SomeName'')]"
  "pathname_of demo_world = pathname_of url_world"
  "write_ok quiet_world k" "write_ok url_world k" "write_ok demo_world k"
  "write_ok search_world k" "write_ok poll_world k"
  "send_ok quiet_world k" "send_ok demo_world k" "send_ok search_world k" "send_ok poll_world k"
  "channel quiet_world" "channel demo_world" "channel search_world" "channel poll_world"
  "accepts quiet_world c" "accepts demo_world c" "accepts search_world c" "accepts poll_world c"
  "fetch rev_world n r = (if n = 0 then Body (Some stats_b) else HttpError)"
  "fetch same_world n r = Body (Some stats_a)"
  "fetch mute_world n r = (if n = 0 then HttpError else Body (Some stats_b))"
  "fetch null_world n r = Body (Some stats_null)"
  "send_ok rev_world k" "send_ok same_world k" "\<not> send_ok mute_world k" "send_ok null_world k"
  "channel rev_world" "channel same_world" "channel mute_world" "channel null_world"
  "accepts rev_world c" "accepts same_world c" "accepts mute_world c" "accepts null_world c"
  by (simp_all add: quiet_world_def url_world_def demo_world_def search_world_def poll_world_def
      rev_world_def same_world_def mute_world_def null_world_def)


lemma strict_eq_iff: "strict_eq a b = (a = b)"
  by (cases a; cases b) simp_all

text \<open>
  C1. With no previous snapshot \<open>statsChanged\<close> is true; and when two snapshots agree on
  every comparison field that both of them define (they differ only outside
  \<open>{kills, deaths, score, wins, losses, rank}\<close>, or in comparison fields undefined on
  at least one side), \<open>statsChanged\<close> is false.
\<close>

theorem statsChanged_absent_and_insensitive:
  "statsChanged None cur \<and>
   ((\<forall>f \<in> set keyFields. field A f = field B f \<or> field A f = JUndefined \<or> field B f = JUndefined)
      \<longrightarrow> \<not> statsChanged (Some A) B)"
  by (auto simp: statsChanged_def list_ex_iff strict_eq_iff)

theorem statsChanged_absent_and_insensitive_witness:
  "list_all (\<lambda>f. field snap_before f = field snap_after f \<or> field snap_before f = JUndefined
                   \<or> field snap_after f = JUndefined) keyFields \<and>
   field snap_before ''timePlayed'' \<noteq> field snap_after ''timePlayed'' \<and>
   field snap_before ''wins'' \<noteq> field snap_after ''wins'' \<and>
   \<not> statsChanged (Some snap_before) snap_after \<and>
   statsChanged None snap_after"
proof -
  have h: "\<forall>f \<in> set keyFields. field snap_before f = field snap_after f
      \<or> field snap_before f = JUndefined \<or> field snap_after f = JUndefined"
    by (simp add: keyFields_def snap_before_def snap_after_def)
  from statsChanged_absent_and_insensitive [of snap_after snap_before snap_after] h
  have "\<not> statsChanged (Some snap_before) snap_after" "statsChanged None snap_after"
    by blast+
  with h show ?thesis
    by (simp add: list_all_iff snap_before_def snap_after_def)
qed

subsection \<open>Evaluating the number formats\<close>

lemma floor_rat_numeral: "\<lfloor>(numeral a :: rat) / numeral b\<rfloor> = numeral a div numeral b"
  using floor_divide_of_int_eq [of "numeral a" "numeral b", where ?'a = rat] by simp

lemma dec_nat_lt10: "n < 10 \<Longrightarrow> dec_nat n = [digit_char n]"
  by (simp add: dec_nat.simps)

lemma dec_nat_ge10: "10 \<le> n \<Longrightarrow> dec_nat n = dec_nat (n div 10) @ [digit_char (n mod 10)]"
  by (subst dec_nat.simps) simp

lemma safe_integer_numeral [simp]: "safe_integer (numeral k) \<longleftrightarrow> (numeral k :: int) < 2 ^ 53"
proof -
  have "\<bar>numeral k :: rat\<bar> < 2 ^ 53 \<longleftrightarrow> (of_int (numeral k) :: rat) < of_int (2 ^ 53)"
    by simp
  also have "\<dots> \<longleftrightarrow> (numeral k :: int) < 2 ^ 53"
    by (rule of_int_less_iff)
  finally show ?thesis
    by (simp add: safe_integer_def)
qed

lemma binary53_safe_integer: "safe_integer x \<Longrightarrow> binary53 x"
  unfolding binary53_def safe_integer_def list_ex_iff
  by (rule bexI [of _ 0]) simp_all

lemmas fmt_eval = dec_nat_lt10 dec_nat_ge10 digit_char_def round_half_up_def pad_left_def
  sign_str_def num_toFixed_def num_toLocaleString_def num_toString_def group3_def
  floor_rat_numeral binary53_safe_integer Let_def

lemma three_fields:
  "collect (stat_fields w snapshot_100_50_2) = Inr
     [\<lparr>fname = [CHR 0xF0, CHR 0x9F, CHR 0x92, CHR 0x80] @ '' Kills'',
       fvalue = ''100'', inline = True\<rparr>,
      \<lparr>fname = [CHR 0xE2, CHR 0x98, CHR 0xA0, CHR 0xEF, CHR 0xB8, CHR 0x8F] @ '' Deaths'',
       fvalue = ''50'', inline = True\<rparr>,
      \<lparr>fname = [CHR 0xF0, CHR 0x9F, CHR 0x93, CHR 0x8A] @ '' K/D Ratio'',
       fvalue = ''2.00'', inline = True\<rparr>]"
  by (simp add: snapshot_100_50_2_def stat_fields_def when_defined_def mk_field_def fmt_eval)

text \<open>
  C3. On the snapshot with exactly \<open>kills: 100\<close>, \<open>deaths: 50\<close> and \<open>kdRatio: 2.0\<close> the
  \<open>fields\<close> array that \<open>createStatsEmbed\<close> builds has exactly three entries, in this order:
  Kills with the grouped value \<open>100\<close>, Deaths with \<open>50\<close>, K/D Ratio with \<open>2.00\<close>; no entry
  for wins, score, losses, win percentage, kills per minute, time played, rank or score
  per minute. The call returns the embed with these three fields, no description and no
  thumbnail, whenever the builder accepts the title, the footer and the three fields; a
  builder that refuses one of them makes the call throw.
\<close>

theorem createStatsEmbed_kills_deaths_kd:
  "collect (stat_fields w snapshot_100_50_2) = Inr
     [\<lparr>fname = [CHR 0xF0, CHR 0x9F, CHR 0x92, CHR 0x80] @ '' Kills'',
       fvalue = ''100'', inline = True\<rparr>,
      \<lparr>fname = [CHR 0xE2, CHR 0x98, CHR 0xA0, CHR 0xEF, CHR 0xB8, CHR 0x8F] @ '' Deaths'',
       fvalue = ''50'', inline = True\<rparr>,
      \<lparr>fname = [CHR 0xF0, CHR 0x9F, CHR 0x93, CHR 0x8A] @ '' K/D Ratio'',
       fvalue = ''2.00'', inline = True\<rparr>] \<and>
   createStatsEmbed w snapshot_100_50_2 playerName plat =
     (if accepts w (SetTitle (embed_title playerName)) \<and>
         accepts w (SetFooter (embed_footer w plat)) \<and>
         accepts w (AddFields
           [\<lparr>fname = [CHR 0xF0, CHR 0x9F, CHR 0x92, CHR 0x80] @ '' Kills'',
             fvalue = ''100'', inline = True\<rparr>,
            \<lparr>fname = [CHR 0xE2, CHR 0x98, CHR 0xA0, CHR 0xEF, CHR 0xB8, CHR 0x8F] @ '' Deaths'',
             fvalue = ''50'', inline = True\<rparr>,
            \<lparr>fname = [CHR 0xF0, CHR 0x9F, CHR 0x93, CHR 0x8A] @ '' K/D Ratio'',
             fvalue = ''2.00'', inline = True\<rparr>])
      then Inr \<lparr>title = embed_title playerName, color = 0x0099FF,
                footer = embed_footer w plat, description = None,
                efields =
                  [\<lparr>fname = [CHR 0xF0, CHR 0x9F, CHR 0x92, CHR 0x80] @ '' Kills'',
                    fvalue = ''100'', inline = True\<rparr>,
                   \<lparr>fname = [CHR 0xE2, CHR 0x98, CHR 0xA0, CHR 0xEF, CHR 0xB8, CHR 0x8F]
                            @ '' Deaths'',
                    fvalue = ''50'', inline = True\<rparr>,
                   \<lparr>fname = [CHR 0xF0, CHR 0x9F, CHR 0x93, CHR 0x8A] @ '' K/D Ratio'',
                    fvalue = ''2.00'', inline = True\<rparr>],
                thumbnail = None\<rparr>
      else Inl ValidationError)"
proof -
  have d: "embed_description snapshot_100_50_2 = None" "embed_thumbnail snapshot_100_50_2 = None"
    by (simp_all add: embed_description_def embed_thumbnail_def snapshot_100_50_2_def)
  show ?thesis
    by (simp add: createStatsEmbed_def three_fields d)
qed

theorem createStatsEmbed_kills_deaths_kd_witness:
  "\<exists>e. createStatsEmbed quiet_world snapshot_100_50_2 ''Bob'' ''pc'' = Inr e \<and>
       title e = [CHR 0xF0, CHR 0x9F, CHR 0x8E, CHR 0xAE] @ '' Bob'' @ [CHR 0x27]
                   @ ''s Battlefield 6 Stats'' \<and>
       footer e = ''Platform: PC'' \<and>
       efields e =
         [\<lparr>fname = [CHR 0xF0, CHR 0x9F, CHR 0x92, CHR 0x80] @ '' Kills'',
           fvalue = ''100'', inline = True\<rparr>,
          \<lparr>fname = [CHR 0xE2, CHR 0x98, CHR 0xA0, CHR 0xEF, CHR 0xB8, CHR 0x8F] @ '' Deaths'',
           fvalue = ''50'', inline = True\<rparr>,
          \<lparr>fname = [CHR 0xF0, CHR 0x9F, CHR 0x93, CHR 0x8A] @ '' K/D Ratio'',
           fvalue = ''2.00'', inline = True\<rparr>]"
proof -
  have up: "toUpperCase quiet_world ''pc'' = ''PC''"
    by (simp add: toUpperCase_def is_ascii_def toUpperChar_def upper_letters_def
        lower_letters_def)
  have acc: "accepts quiet_world c" for c
    by (simp add: worlds_sel)
  from createStatsEmbed_kills_deaths_kd [of quiet_world "''Bob''" "''pc''"] acc
  show ?thesis
    by (simp add: embed_title_def embed_footer_def up)
qed

subsection \<open>The two probes\<close>

lemma probes_agree:
  "requests st = requests st' \<Longrightarrow>
     fst (add_probe w playerId pls st) = fst (track_probe w playerId pls st') \<and>
     requests (snd (add_probe w playerId pls st)) = requests (snd (track_probe w playerId pls st'))"
proof (induction pls arbitrary: st st')
  case Nil
  then show ?case by simp
next
  case (Cons plat rest)
  let ?r = "\<lparr>q_name = None, q_personaId = Some playerId, q_platform = plat\<rparr>"
  have same: "fetch w (length (requests st)) ?r = fetch w (length (requests st')) ?r"
    using Cons.prems by simp
  have step: "\<And>a b. requests (a::bot) = requests st @ [?r] \<Longrightarrow> requests (b::bot) = requests st' @ [?r] \<Longrightarrow>
      fst (add_probe w playerId rest a) = fst (track_probe w playerId rest b) \<and>
      requests (snd (add_probe w playerId rest a)) = requests (snd (track_probe w playerId rest b))"
    using Cons.IH Cons.prems by simp
  show ?case
    using same Cons.prems
    by (cases "fetch w (length (requests st')) ?r")
       (simp_all add: do_fetch_def sleep_def step)
qed

lemma track_probe_requests:
  "\<exists>k. requests (snd (track_probe w playerId pls st)) =
        requests st @ map (\<lambda>plat. \<lparr>q_name = None, q_personaId = Some playerId, q_platform = plat\<rparr>) (take k pls)"
proof (induction pls arbitrary: st)
  case Nil
  then show ?case by simp
next
  case (Cons plat rest)
  let ?r = "\<lparr>q_name = None, q_personaId = Some playerId, q_platform = plat\<rparr>"
  let ?st1 = "st\<lparr>requests := requests st @ [?r]\<rparr>"
  obtain k where k: "requests (snd (track_probe w playerId rest ?st1)) =
      requests ?st1 @ map (\<lambda>plat. \<lparr>q_name = None, q_personaId = Some playerId, q_platform = plat\<rparr>) (take k rest)"
    using Cons.IH by blast
  have stop: "requests ?st1 = requests st @ map (\<lambda>plat. \<lparr>q_name = None, q_personaId = Some playerId, q_platform = plat\<rparr>) (take (Suc 0) (plat # rest))"
    by simp
  have go: "requests (snd (track_probe w playerId rest ?st1)) = requests st @ map (\<lambda>plat. \<lparr>q_name = None, q_personaId = Some playerId, q_platform = plat\<rparr>) (take (Suc k) (plat # rest))"
    using k by simp
  show ?case
  proof (cases "fetch w (length (requests st)) ?r")
    case (Body data)
    show ?thesis
    proof (cases "recognizable data")
      case True
      with Body stop show ?thesis by (intro exI[of _ "Suc 0"]) (simp add: do_fetch_def)
    next
      case False
      with Body go show ?thesis by (intro exI[of _ "Suc k"]) (simp add: do_fetch_def)
    qed
  qed (use go in \<open>intro exI[of _ "Suc k"], simp add: do_fetch_def\<close>)+
qed

text \<open>
  C9. For every player id and every behaviour of the API, the probe of the \<open>!track\<close>
  handler and the probe of the \<open>!add\<close> handler find the same player (name, personaId and
  platform) or both find none, and they issue the same requests: one request by
  \<open>personaId\<close> per platform, for an initial stretch of \<open>pc\<close>, \<open>xbox\<close>, \<open>psn\<close> in this order.
  (They differ only in the pauses of the \<open>!add\<close> probe.)
\<close>

theorem probes_equivalent:
  "fst (add_probe w playerId platforms st) = fst (track_probe w playerId platforms st) \<and>
   requests (snd (add_probe w playerId platforms st))
     = requests (snd (track_probe w playerId platforms st)) \<and>
   (\<exists>k. requests (snd (track_probe w playerId platforms st)) =
        requests st @ map (\<lambda>plat. \<lparr>q_name = None, q_personaId = Some playerId, q_platform = plat\<rparr>)
                         (take k [''pc'', ''xbox'', ''psn'']))"
  using probes_agree [of st st w playerId platforms] track_probe_requests [of w playerId platforms st]
  by (simp add: platforms_def)

subsection \<open>URL parsing\<close>

lemma parseTrackerUrl_Some_iff:
  "pathname_of w url = Some path \<Longrightarrow>
     parseTrackerUrl w url = Some s \<longleftrightarrow>
       (\<exists>rest. pathParts path = ''bf6'' # ''profile'' # s # rest \<and> all_digits s)"
proof -
  assume p: "pathname_of w url = Some path"
  show ?thesis
  proof (cases "pathParts path")
    case Nil
    with p show ?thesis by (simp add: parseTrackerUrl_def)
  next
    case (Cons a r1)
    note c1 = this
    show ?thesis
    proof (cases r1)
      case Nil
      with p c1 show ?thesis by (simp add: parseTrackerUrl_def)
    next
      case (Cons b r2)
      note c2 = this
      show ?thesis
      proof (cases r2)
        case Nil
        with p c1 c2 show ?thesis by (simp add: parseTrackerUrl_def)
      next
        case (Cons c r3)
        with p c1 c2 show ?thesis by (auto simp: parseTrackerUrl_def Let_def)
      qed
    qed
  qed
qed

lemma all_digits_iff: "all_digits s \<longleftrightarrow> s \<noteq> [] \<and> set s \<subseteq> set ''0123456789''"
  unfolding all_digits_def is_digit_def list_all_iff by blast

lemma pathParts_overview:
  "pathParts ''/bf6/profile/2481313248/overview'' = [''bf6'', ''profile'', ''2481313248'', ''overview'']"
  by (simp add: pathParts_def)

lemma pathParts_SomeName:
  "pathParts ''/bf6/profile/pc/SomeName'' = [''bf6'', ''profile'', ''pc'', ''SomeName'']"
  by (simp add: pathParts_def)

text \<open>
  C8. When the URL library gives \<open>https://site/bf6/profile/2481313248/overview\<close> the path
  \<open>/bf6/profile/2481313248/overview\<close>, \<open>parseTrackerUrl\<close> returns the id \<open>2481313248\<close>; when
  it gives \<open>https://site/bf6/profile/pc/SomeName\<close> the path \<open>/bf6/profile/pc/SomeName\<close>, the
  result is \<open>null\<close>. In general, for a URL that parses, the result is a string \<open>s\<close> exactly
  when the non-empty segments of the path begin with \<open>bf6\<close>, \<open>profile\<close>, \<open>s\<close> and \<open>s\<close> is a
  non-empty string of decimal digits; otherwise, and for a text that does not parse as a
  URL, it is \<open>null\<close>.
\<close>

theorem parseTrackerUrl_third_segment:
  "(pathname_of w ''https://site/bf6/profile/2481313248/overview'' = Some ''/bf6/profile/2481313248/overview''
      \<longrightarrow> parseTrackerUrl w ''https://site/bf6/profile/2481313248/overview'' = Some ''2481313248'') \<and>
   (pathname_of w ''https://site/bf6/profile/pc/SomeName'' = Some ''/bf6/profile/pc/SomeName''
      \<longrightarrow> parseTrackerUrl w ''https://site/bf6/profile/pc/SomeName'' = None) \<and>
   (pathname_of w url = Some path \<longrightarrow>
      (parseTrackerUrl w url = Some s \<longleftrightarrow>
         (\<exists>rest. pathParts path = ''bf6'' # ''profile'' # s # rest \<and> s \<noteq> [] \<and> set s \<subseteq> set ''0123456789''))) \<and>
   (pathname_of w url = None \<longrightarrow> parseTrackerUrl w url = None)"
proof (intro conjI impI)
  assume "pathname_of w ''https://site/bf6/profile/2481313248/overview'' = Some ''/bf6/profile/2481313248/overview''"
  then show "parseTrackerUrl w ''https://site/bf6/profile/2481313248/overview'' = Some ''2481313248''"
    by (simp add: parseTrackerUrl_def pathParts_overview all_digits_def is_digit_def)
next
  assume "pathname_of w ''https://site/bf6/profile/pc/SomeName'' = Some ''/bf6/profile/pc/SomeName''"
  then show "parseTrackerUrl w ''https://site/bf6/profile/pc/SomeName'' = None"
    by (simp add: parseTrackerUrl_def pathParts_SomeName all_digits_def is_digit_def)
next
  assume "pathname_of w url = Some path"
  then show "parseTrackerUrl w url = Some s \<longleftrightarrow>
         (\<exists>rest. pathParts path = ''bf6'' # ''profile'' # s # rest \<and> s \<noteq> [] \<and> set s \<subseteq> set ''0123456789'')"
    by (simp add: parseTrackerUrl_Some_iff all_digits_iff)
next
  assume "pathname_of w url = None"
  then show "parseTrackerUrl w url = None" by (simp add: parseTrackerUrl_def)
qed

theorem parseTrackerUrl_third_segment_witness:
  "pathname_of url_world ''https://site/bf6/profile/2481313248/overview'' = Some ''/bf6/profile/2481313248/overview'' \<and>
   parseTrackerUrl url_world ''https://site/bf6/profile/2481313248/overview'' = Some ''2481313248'' \<and>
   pathname_of url_world ''https://site/bf6/profile/pc/SomeName'' = Some ''/bf6/profile/pc/SomeName'' \<and>
   parseTrackerUrl url_world ''https://site/bf6/profile/pc/SomeName'' = None \<and>
   pathname_of url_world ''not a url'' = None \<and>
   parseTrackerUrl url_world ''not a url'' = None"
  using parseTrackerUrl_third_segment [of url_world "''https://site/bf6/profile/2481313248/overview''"
          "''/bf6/profile/2481313248/overview''" "''2481313248''"]
        parseTrackerUrl_third_segment [of url_world "''not a url''"]
  by (simp add: worlds_sel)

subsection \<open>The untrack command\<close>

lemma findIndex_None_iff: "findIndex P xs = None \<longleftrightarrow> (\<forall>x \<in> set xs. \<not> P x)"
  by (induction xs) auto

lemma findIndex_Some_split:
  "findIndex P xs = Some i \<Longrightarrow>
     i < length xs \<and> P (xs ! i) \<and> (\<forall>q \<in> set (take i xs). \<not> P q)"
proof (induction xs arbitrary: i)
  case Nil
  then show ?case by simp
next
  case (Cons x xs)
  show ?case
  proof (cases "P x")
    case True
    with Cons.prems show ?thesis by simp
  next
    case False
    with Cons.prems obtain j where j: "findIndex P xs = Some j" "i = Suc j"
      by auto
    with Cons.IH [OF j(1)] False show ?thesis by simp
  qed
qed

lemma untrack_match_iff:
  "playerId \<noteq> [] \<Longrightarrow>
     untrack_match w playerId p \<longleftrightarrow>
       (personaId p = Some playerId \<or> toLowerCase w (name p) = toLowerCase w playerId)"
  by (auto simp: untrack_match_def)

text \<open>
  C5. For every non-empty argument of \<open>!untrack\<close>: if some tracked player has that
  \<open>personaId\<close>, or a name whose \<open>toLowerCase()\<close> equals that of the argument (the host's
  case mapping, which on ASCII text is the folding of \<open>A\<close>-\<open>Z\<close>), then the first such
  player of the list is removed and no other, the list is saved (one write of the new
  list), that player's \<open>lastStats\<close> entry, under the key the poll loop uses for it (its
  \<open>personaId\<close>, or name and platform joined by an underscore when it has none), is
  deleted, and the reply names the removed player; if no tracked player matches, the
  reply is the not-tracked error and list, cache and file are as before.
\<close>

theorem untrack_removes_first_match:
  "playerId \<noteq> [] \<Longrightarrow>
   ((\<exists>p \<in> set (trackedPlayers st).
        personaId p = Some playerId \<or> toLowerCase w (name p) = toLowerCase w playerId) \<longrightarrow>
      (\<exists>before p after.
         trackedPlayers st = before @ p # after \<and>
         (personaId p = Some playerId \<or> toLowerCase w (name p) = toLowerCase w playerId) \<and>
         (\<forall>q \<in> set before.
            \<not> (personaId q = Some playerId \<or> toLowerCase w (name q) = toLowerCase w playerId)) \<and>
         trackedPlayers (untrack_cmd w playerId st) = before @ after \<and>
         writes (untrack_cmd w playerId st) = writes st + 1 \<and>
         (write_ok w (writes st) \<longrightarrow> playersFile (untrack_cmd w playerId st) = Some (before @ after)) \<and>
         lastStats (untrack_cmd w playerId st) = (lastStats st)(playerKey p := None) \<and>
         replies (untrack_cmd w playerId st)
           = replies st @ [Removed (name p) (toUpperCase w (platform p))])) \<and>
   ((\<forall>p \<in> set (trackedPlayers st).
        \<not> (personaId p = Some playerId \<or> toLowerCase w (name p) = toLowerCase w playerId)) \<longrightarrow>
      replies (untrack_cmd w playerId st) = replies st @ [NotTracked playerId] \<and>
      trackedPlayers (untrack_cmd w playerId st) = trackedPlayers st \<and>
      lastStats (untrack_cmd w playerId st) = lastStats st \<and>
      playersFile (untrack_cmd w playerId st) = playersFile st \<and>
      writes (untrack_cmd w playerId st) = writes st)"
proof -
  assume ne: "playerId \<noteq> []"
  let ?ps = "trackedPlayers st"
  let ?st' = "untrack_cmd w playerId st"
  let ?M = "\<lambda>p. personaId p = Some playerId \<or> toLowerCase w (name p) = toLowerCase w playerId"
  have hit_case: "(\<exists>p \<in> set ?ps. ?M p) \<longrightarrow>
      (\<exists>before p after.
         ?ps = before @ p # after \<and> ?M p \<and> (\<forall>q \<in> set before. \<not> ?M q) \<and>
         trackedPlayers ?st' = before @ after \<and>
         writes ?st' = writes st + 1 \<and>
         (write_ok w (writes st) \<longrightarrow> playersFile ?st' = Some (before @ after)) \<and>
         lastStats ?st' = (lastStats st)(playerKey p := None) \<and>
         replies ?st' = replies st @ [Removed (name p) (toUpperCase w (platform p))])"
  proof
    assume ex: "\<exists>p \<in> set ?ps. ?M p"
    with ne have "findIndex (untrack_match w playerId) ?ps \<noteq> None"
      by (simp add: findIndex_None_iff untrack_match_iff)
    then obtain i where i: "findIndex (untrack_match w playerId) ?ps = Some i"
      by auto
    from findIndex_Some_split [OF i]
    have lt: "i < length ?ps" and hit: "untrack_match w playerId (?ps ! i)"
      and first: "\<forall>q \<in> set (take i ?ps). \<not> untrack_match w playerId q"
      by auto
    have split: "?ps = take i ?ps @ ?ps ! i # drop (Suc i) ?ps"
      using lt by (simp add: id_take_nth_drop)
    have run: "?st' = send_reply (Removed (name (?ps ! i)) (toUpperCase w (platform (?ps ! i))))
        ((saveTrackedPlayers w (st\<lparr>trackedPlayers := take i ?ps @ drop (i + 1) ?ps\<rparr>))
           \<lparr>lastStats := (lastStats st)(playerKey (?ps ! i) := None)\<rparr>)"
      using ne i by (simp add: untrack_cmd_def Let_def saveTrackedPlayers_def)
    have eff: "trackedPlayers ?st' = take i ?ps @ drop (Suc i) ?ps"
      "writes ?st' = writes st + 1"
      "write_ok w (writes st) \<longrightarrow> playersFile ?st' = Some (take i ?ps @ drop (Suc i) ?ps)"
      "lastStats ?st' = (lastStats st)(playerKey (?ps ! i) := None)"
      "replies ?st' = replies st @ [Removed (name (?ps ! i)) (toUpperCase w (platform (?ps ! i)))]"
      unfolding run by (simp_all add: saveTrackedPlayers_def send_reply_def)
    have m: "?M (?ps ! i)" "\<forall>q \<in> set (take i ?ps). \<not> ?M q"
      using hit first ne by (simp_all add: untrack_match_iff)
    show "\<exists>before p after.
         ?ps = before @ p # after \<and> ?M p \<and> (\<forall>q \<in> set before. \<not> ?M q) \<and>
         trackedPlayers ?st' = before @ after \<and>
         writes ?st' = writes st + 1 \<and>
         (write_ok w (writes st) \<longrightarrow> playersFile ?st' = Some (before @ after)) \<and>
         lastStats ?st' = (lastStats st)(playerKey p := None) \<and>
         replies ?st' = replies st @ [Removed (name p) (toUpperCase w (platform p))]"
      using split m eff by blast
  qed
  have miss_case: "(\<forall>p \<in> set ?ps. \<not> ?M p) \<longrightarrow>
      replies ?st' = replies st @ [NotTracked playerId] \<and>
      trackedPlayers ?st' = trackedPlayers st \<and>
      lastStats ?st' = lastStats st \<and>
      playersFile ?st' = playersFile st \<and>
      writes ?st' = writes st"
  proof
    assume "\<forall>p \<in> set ?ps. \<not> ?M p"
    then have "findIndex (untrack_match w playerId) ?ps = None"
      using ne by (simp add: findIndex_None_iff untrack_match_iff)
    then show "replies ?st' = replies st @ [NotTracked playerId] \<and>
      trackedPlayers ?st' = trackedPlayers st \<and>
      lastStats ?st' = lastStats st \<and>
      playersFile ?st' = playersFile st \<and>
      writes ?st' = writes st"
      using ne by (simp add: untrack_cmd_def send_reply_def)
  qed
  show ?thesis using hit_case miss_case by (rule conjI)
qed

lemma example_players [simp]:
  "name bob = ''Bob''" "platform bob = ''pc''" "personaId bob = Some ''111''"
  "name alice = ''Alice''" "platform alice = ''xbox''" "personaId alice = None"
  by (simp_all add: bob_def alice_def)

lemma lower_ALICE: "toLowerCase w ''ALICE'' = ''alice''" "toLowerCase w ''Alice'' = ''alice''"
  "toLowerCase w ''Bob'' = ''bob''" "toLowerCase w ''carol'' = ''carol''"
  "toLowerCase w ''bob'' = ''bob''" "toLowerCase w ''111'' = ''111''"
  by (simp_all add: toLowerCase_def is_ascii_def toLowerChar_def upper_letters_def
      lower_letters_def)

lemma upper_platforms: "toUpperCase w ''pc'' = ''PC''" "toUpperCase w ''xbox'' = ''XBOX''"
  "toUpperCase w ''psn'' = ''PSN''"
  by (simp_all add: toUpperCase_def is_ascii_def toUpperChar_def upper_letters_def
      lower_letters_def)

theorem untrack_removes_first_match_witness:
  "''ALICE'' \<noteq> [] \<and>
   (\<exists>p \<in> set (trackedPlayers two_tracked).
        personaId p = Some ''ALICE'' \<or> toLowerCase quiet_world (name p) = toLowerCase quiet_world ''ALICE'') \<and>
   trackedPlayers (untrack_cmd quiet_world ''ALICE'' two_tracked) = [bob] \<and>
   playersFile (untrack_cmd quiet_world ''ALICE'' two_tracked) = Some [bob] \<and>
   lastStats (untrack_cmd quiet_world ''ALICE'' two_tracked) ''Alice_xbox'' = None \<and>
   lastStats (untrack_cmd quiet_world ''ALICE'' two_tracked) ''111'' = Some stats_a \<and>
   replies (untrack_cmd quiet_world ''ALICE'' two_tracked) = [Removed ''Alice'' ''XBOX''] \<and>
   (\<exists>p \<in> set (trackedPlayers two_tracked).
        personaId p = Some ''111'' \<or> toLowerCase quiet_world (name p) = toLowerCase quiet_world ''111'') \<and>
   trackedPlayers (untrack_cmd quiet_world ''111'' two_tracked) = [alice] \<and>
   playersFile (untrack_cmd quiet_world ''111'' two_tracked) = Some [alice] \<and>
   writes (untrack_cmd quiet_world ''111'' two_tracked) = 1 \<and>
   lastStats (untrack_cmd quiet_world ''111'' two_tracked) = (lastStats two_tracked)(''111'' := None) \<and>
   lastStats (untrack_cmd quiet_world ''111'' two_tracked) ''111'' = None \<and>
   lastStats (untrack_cmd quiet_world ''111'' two_tracked) ''Alice_xbox'' = Some stats_a \<and>
   replies (untrack_cmd quiet_world ''111'' two_tracked) = [Removed ''Bob'' ''PC''] \<and>
   trackedPlayers (untrack_cmd quiet_world ''bob'' bobs_tracked) = [alice, bob2] \<and>
   lastStats (untrack_cmd quiet_world ''bob'' bobs_tracked) = (lastStats two_tracked)(''111'' := None) \<and>
   list_all (\<lambda>p. \<not> (personaId p = Some ''carol'' \<or> toLowerCase quiet_world (name p) = toLowerCase quiet_world ''carol''))
     (trackedPlayers two_tracked) \<and>
   replies (untrack_cmd quiet_world ''carol'' two_tracked) = [NotTracked ''carol''] \<and>
   trackedPlayers (untrack_cmd quiet_world ''carol'' two_tracked) = [bob, alice]"
proof -
  let ?M = "\<lambda>playerId p. personaId p = Some playerId
      \<or> toLowerCase quiet_world (name p) = toLowerCase quiet_world playerId"
  have m: "\<exists>p \<in> set (trackedPlayers two_tracked). ?M ''ALICE'' p"
    by (simp add: two_tracked_def lower_ALICE)
  have m1: "\<exists>p \<in> set (trackedPlayers two_tracked). ?M ''111'' p"
    by (simp add: two_tracked_def)
  have m2: "\<exists>p \<in> set (trackedPlayers bobs_tracked). ?M ''bob'' p"
    by (simp add: bobs_tracked_def lower_ALICE)
  have n: "\<forall>p \<in> set (trackedPlayers two_tracked). \<not> ?M ''carol'' p"
    by (simp add: two_tracked_def lower_ALICE)
  have a: "trackedPlayers (untrack_cmd quiet_world ''ALICE'' two_tracked) = [bob]"
    "playersFile (untrack_cmd quiet_world ''ALICE'' two_tracked) = Some [bob]"
    "lastStats (untrack_cmd quiet_world ''ALICE'' two_tracked) ''Alice_xbox'' = None"
    "lastStats (untrack_cmd quiet_world ''ALICE'' two_tracked) ''111'' = Some stats_a"
    "replies (untrack_cmd quiet_world ''ALICE'' two_tracked) = [Removed ''Alice'' ''XBOX'']"
  proof -
    from untrack_removes_first_match [of "''ALICE''" two_tracked quiet_world] m
    obtain before p after where r: "trackedPlayers two_tracked = before @ p # after"
      "?M ''ALICE'' p" "\<forall>q \<in> set before. \<not> ?M ''ALICE'' q"
      "trackedPlayers (untrack_cmd quiet_world ''ALICE'' two_tracked) = before @ after"
      "write_ok quiet_world (writes two_tracked) \<longrightarrow>
         playersFile (untrack_cmd quiet_world ''ALICE'' two_tracked) = Some (before @ after)"
      "lastStats (untrack_cmd quiet_world ''ALICE'' two_tracked)
         = (lastStats two_tracked)(playerKey p := None)"
      "replies (untrack_cmd quiet_world ''ALICE'' two_tracked)
         = replies two_tracked @ [Removed (name p) (toUpperCase quiet_world (platform p))]"
      by auto
    from r(1) have sp: "[bob, alice] = before @ p # after" by (simp add: two_tracked_def)
    have "\<not> ?M ''ALICE'' bob" by (simp add: lower_ALICE)
    with sp r(2) have p: "before = [bob]" "p = alice" "after = []"
      by (auto simp: Cons_eq_append_conv)
    show "trackedPlayers (untrack_cmd quiet_world ''ALICE'' two_tracked) = [bob]"
      using r(4) p by simp
    show "playersFile (untrack_cmd quiet_world ''ALICE'' two_tracked) = Some [bob]"
      using r(5) p by (simp add: worlds_sel)
    show "lastStats (untrack_cmd quiet_world ''ALICE'' two_tracked) ''Alice_xbox'' = None"
      using r(6) p by (simp add: playerKey_def)
    show "lastStats (untrack_cmd quiet_world ''ALICE'' two_tracked) ''111'' = Some stats_a"
      using r(6) p by (simp add: playerKey_def two_tracked_def)
    show "replies (untrack_cmd quiet_world ''ALICE'' two_tracked) = [Removed ''Alice'' ''XBOX'']"
      using r(7) p by (simp add: upper_platforms two_tracked_def)
  qed
  have b: "trackedPlayers (untrack_cmd quiet_world ''111'' two_tracked) = [alice]"
    "playersFile (untrack_cmd quiet_world ''111'' two_tracked) = Some [alice]"
    "writes (untrack_cmd quiet_world ''111'' two_tracked) = 1"
    "lastStats (untrack_cmd quiet_world ''111'' two_tracked) = (lastStats two_tracked)(''111'' := None)"
    "replies (untrack_cmd quiet_world ''111'' two_tracked) = [Removed ''Bob'' ''PC'']"
  proof -
    from untrack_removes_first_match [of "''111''" two_tracked quiet_world] m1
    obtain before p after where r: "trackedPlayers two_tracked = before @ p # after"
      "?M ''111'' p" "\<forall>q \<in> set before. \<not> ?M ''111'' q"
      "trackedPlayers (untrack_cmd quiet_world ''111'' two_tracked) = before @ after"
      "writes (untrack_cmd quiet_world ''111'' two_tracked) = writes two_tracked + 1"
      "write_ok quiet_world (writes two_tracked) \<longrightarrow>
         playersFile (untrack_cmd quiet_world ''111'' two_tracked) = Some (before @ after)"
      "lastStats (untrack_cmd quiet_world ''111'' two_tracked)
         = (lastStats two_tracked)(playerKey p := None)"
      "replies (untrack_cmd quiet_world ''111'' two_tracked)
         = replies two_tracked @ [Removed (name p) (toUpperCase quiet_world (platform p))]"
      by auto
    from r(1) have sp: "[bob, alice] = before @ p # after" by (simp add: two_tracked_def)
    have "?M ''111'' bob" by simp
    with sp r(3) have p: "before = []" "p = bob" "after = [alice]"
      by (auto simp: Cons_eq_append_conv)
    show "trackedPlayers (untrack_cmd quiet_world ''111'' two_tracked) = [alice]"
      using r(4) p by simp
    show "playersFile (untrack_cmd quiet_world ''111'' two_tracked) = Some [alice]"
      using r(6) p by (simp add: worlds_sel)
    show "writes (untrack_cmd quiet_world ''111'' two_tracked) = 1"
      using r(5) by (simp add: two_tracked_def)
    show "lastStats (untrack_cmd quiet_world ''111'' two_tracked)
        = (lastStats two_tracked)(''111'' := None)"
      using r(7) p by (simp add: playerKey_def)
    show "replies (untrack_cmd quiet_world ''111'' two_tracked) = [Removed ''Bob'' ''PC'']"
      using r(8) p by (simp add: upper_platforms two_tracked_def)
  qed
  have b': "lastStats (untrack_cmd quiet_world ''111'' two_tracked) ''111'' = None"
    "lastStats (untrack_cmd quiet_world ''111'' two_tracked) ''Alice_xbox'' = Some stats_a"
    unfolding b(4) by (simp_all add: two_tracked_def)
  have d: "trackedPlayers (untrack_cmd quiet_world ''bob'' bobs_tracked) = [alice, bob2]"
    "lastStats (untrack_cmd quiet_world ''bob'' bobs_tracked) = (lastStats two_tracked)(''111'' := None)"
  proof -
    from untrack_removes_first_match [of "''bob''" bobs_tracked quiet_world] m2
    obtain before p after where r: "trackedPlayers bobs_tracked = before @ p # after"
      "?M ''bob'' p" "\<forall>q \<in> set before. \<not> ?M ''bob'' q"
      "trackedPlayers (untrack_cmd quiet_world ''bob'' bobs_tracked) = before @ after"
      "lastStats (untrack_cmd quiet_world ''bob'' bobs_tracked)
         = (lastStats bobs_tracked)(playerKey p := None)"
      by auto
    from r(1) have sp: "[bob, alice, bob2] = before @ p # after" by (simp add: bobs_tracked_def)
    have "?M ''bob'' bob" by (simp add: lower_ALICE)
    with sp r(3) have p: "before = []" "p = bob" "after = [alice, bob2]"
      by (auto simp: Cons_eq_append_conv)
    show "trackedPlayers (untrack_cmd quiet_world ''bob'' bobs_tracked) = [alice, bob2]"
      using r(4) p by simp
    show "lastStats (untrack_cmd quiet_world ''bob'' bobs_tracked)
        = (lastStats two_tracked)(''111'' := None)"
      using r(5) p by (simp add: playerKey_def bobs_tracked_def)
  qed
  have c: "replies (untrack_cmd quiet_world ''carol'' two_tracked) = [NotTracked ''carol'']"
    "trackedPlayers (untrack_cmd quiet_world ''carol'' two_tracked) = [bob, alice]"
    using untrack_removes_first_match [of "''carol''" two_tracked quiet_world] n
    by (simp_all add: two_tracked_def)
  from m m1 n a b b' c d show ?thesis unfolding list_all_iff by simp
qed

subsection \<open>Commands and the players file\<close>

lemma add_probe_frame:
  "\<exists>rs ms. snd (add_probe w playerId pls st) = st\<lparr>requests := requests st @ rs, slept := slept st + ms\<rparr>"
proof (induction pls arbitrary: st)
  case Nil
  have "st = st\<lparr>requests := requests st @ [], slept := slept st + 0\<rparr>" by simp
  then show ?case by (metis add_probe.simps(1) snd_conv)
next
  case (Cons plat rest)
  let ?r = "\<lparr>q_name = None, q_personaId = Some playerId, q_platform = plat\<rparr>"
  let ?st1 = "st\<lparr>requests := requests st @ [?r]\<rparr>"
  have "?st1 = st\<lparr>requests := requests st @ [?r], slept := slept st + 0\<rparr>" by simp
  then have here: "\<exists>rs ms. ?st1 = st\<lparr>requests := requests st @ rs, slept := slept st + ms\<rparr>"
    by blast
  have later: "\<exists>rs ms. snd (add_probe w playerId rest (?st1\<lparr>slept := slept st + k\<rparr>))
        = st\<lparr>requests := requests st @ rs, slept := slept st + ms\<rparr>" for k
  proof -
    obtain rs ms where "snd (add_probe w playerId rest (?st1\<lparr>slept := slept st + k\<rparr>))
        = (?st1\<lparr>slept := slept st + k\<rparr>)\<lparr>requests := requests (?st1\<lparr>slept := slept st + k\<rparr>) @ rs,
             slept := slept (?st1\<lparr>slept := slept st + k\<rparr>) + ms\<rparr>"
      using Cons.IH by blast
    then have "snd (add_probe w playerId rest (?st1\<lparr>slept := slept st + k\<rparr>))
        = st\<lparr>requests := requests st @ ([?r] @ rs), slept := slept st + (k + ms)\<rparr>"
      by (simp add: add.assoc)
    then show ?thesis by blast
  qed
  have later0: "\<exists>rs ms. snd (add_probe w playerId rest ?st1)
        = st\<lparr>requests := requests st @ rs, slept := slept st + ms\<rparr>"
    using later [of 0] by simp
  show ?case
  proof (cases "fetch w (length (requests st)) ?r")
    case (Body data)
    show ?thesis
    proof (cases "recognizable data")
      case True
      with Body here show ?thesis by (simp add: do_fetch_def)
    next
      case False
      with Body later [of 500] show ?thesis by (simp add: do_fetch_def sleep_def)
    qed
  qed (use later0 later [of 500] in \<open>simp_all add: do_fetch_def sleep_def\<close>)
qed

lemma track_probe_frame:
  "\<exists>rs. snd (track_probe w playerId pls st) = st\<lparr>requests := requests st @ rs\<rparr>"
proof (induction pls arbitrary: st)
  case Nil
  have "st = st\<lparr>requests := requests st @ []\<rparr>" by simp
  then show ?case by (metis track_probe.simps(1) snd_conv)
next
  case (Cons plat rest)
  let ?r = "\<lparr>q_name = None, q_personaId = Some playerId, q_platform = plat\<rparr>"
  let ?st1 = "st\<lparr>requests := requests st @ [?r]\<rparr>"
  have later: "\<exists>rs. snd (track_probe w playerId rest ?st1) = st\<lparr>requests := requests st @ rs\<rparr>"
  proof -
    obtain rs where "snd (track_probe w playerId rest ?st1) = ?st1\<lparr>requests := requests ?st1 @ rs\<rparr>"
      using Cons.IH by blast
    then have "snd (track_probe w playerId rest ?st1) = st\<lparr>requests := requests st @ ([?r] @ rs)\<rparr>"
      by simp
    then show ?thesis by blast
  qed
  show ?case
  proof (cases "fetch w (length (requests st)) ?r")
    case (Body data)
    have "?st1 = st\<lparr>requests := requests st @ [?r]\<rparr>" by simp
    then have here: "\<exists>rs. ?st1 = st\<lparr>requests := requests st @ rs\<rparr>" by blast
    show ?thesis
    proof (cases "recognizable data")
      case True
      with Body here show ?thesis by (simp add: do_fetch_def)
    next
      case False
      with Body later show ?thesis by (simp add: do_fetch_def)
    qed
  qed (use later in \<open>simp_all add: do_fetch_def\<close>)
qed


lemma track_found_reject:
  "\<exists>p \<in> set (trackedPlayers st).
      (truthy_str (personaId p) \<and> personaId p = personaId fp)
      \<or> (name p = name fp \<and> platform p = platform fp) \<Longrightarrow>
   track_found w fp st = send_reply (AlreadyTracked (name fp) (toUpperCase w (platform fp))) st"
  by (cases "alreadyTracked (trackedPlayers st) fp")
     (auto simp: track_found_def alreadyTracked_def find_None_iff)

lemma track_found_add:
  "\<not> (\<exists>p \<in> set (trackedPlayers st).
      (truthy_str (personaId p) \<and> personaId p = personaId fp)
      \<or> (name p = name fp \<and> platform p = platform fp)) \<Longrightarrow>
   trackedPlayers (track_found w fp st) = trackedPlayers st @ [fp] \<and>
   writes (track_found w fp st) = writes st + 1 \<and>
   playersFile (track_found w fp st)
     = (if write_ok w (writes st) then Some (trackedPlayers st @ [fp]) else playersFile st) \<and>
   lastStats (track_found w fp st) = lastStats st"
proof -
  assume "\<not> (\<exists>p \<in> set (trackedPlayers st).
      (truthy_str (personaId p) \<and> personaId p = personaId fp)
      \<or> (name p = name fp \<and> platform p = platform fp))"
  then have "alreadyTracked (trackedPlayers st) fp = None"
    by (auto simp: alreadyTracked_def find_None_iff)
  then show ?thesis
    by (simp add: track_found_def Let_def saveTrackedPlayers_def send_reply_def)
qed

lemma track_found_store:
  "(trackedPlayers (track_found w fp st) = trackedPlayers st \<and>
    playersFile (track_found w fp st) = playersFile st \<and>
    writes (track_found w fp st) = writes st) \<or>
   (trackedPlayers (track_found w fp st) = trackedPlayers st @ [fp] \<and>
    (\<forall>p \<in> set (trackedPlayers st).
       \<not> (truthy_str (personaId p) \<and> personaId p = personaId fp) \<and>
       \<not> (name p = name fp \<and> platform p = platform fp)) \<and>
    writes (track_found w fp st) = writes st + 1 \<and>
    playersFile (track_found w fp st)
      = (if write_ok w (writes st) then Some (trackedPlayers st @ [fp]) else playersFile st))"
proof (cases "\<exists>p \<in> set (trackedPlayers st).
      (truthy_str (personaId p) \<and> personaId p = personaId fp)
      \<or> (name p = name fp \<and> platform p = platform fp)")
  case True
  from track_found_reject [OF this] show ?thesis by (simp add: send_reply_def)
next
  case False
  from track_found_add [OF this] False show ?thesis by blast
qed

lemma track_probe_store:
  "trackedPlayers (snd (track_probe w playerId pls st)) = trackedPlayers st"
  "playersFile (snd (track_probe w playerId pls st)) = playersFile st"
  "writes (snd (track_probe w playerId pls st)) = writes st"
  "lastStats (snd (track_probe w playerId pls st)) = lastStats st"
  "replies (snd (track_probe w playerId pls st)) = replies st"
  using track_probe_frame [of w playerId pls st] by auto

lemma add_probe_store:
  "trackedPlayers (snd (add_probe w playerId pls st)) = trackedPlayers st"
  "playersFile (snd (add_probe w playerId pls st)) = playersFile st"
  "writes (snd (add_probe w playerId pls st)) = writes st"
  "lastStats (snd (add_probe w playerId pls st)) = lastStats st"
  "replies (snd (add_probe w playerId pls st)) = replies st"
  using add_probe_frame [of w playerId pls st] by auto

lemma track_cmd_found:
  "playerId \<noteq> [] \<Longrightarrow> fst (track_probe w playerId platforms st) = Some fp \<Longrightarrow>
     track_cmd w playerId st = track_found w fp (snd (track_probe w playerId platforms st))"
  by (cases "track_probe w playerId platforms st") (simp add: track_cmd_def)

lemma add_probe_after_reply:
  "fst (add_probe w playerId pls (send_reply r st)) = fst (add_probe w playerId pls st)"
  using probes_agree [of "send_reply r st" st w playerId pls] probes_agree [of st st w playerId pls]
  by (simp add: send_reply_def)

lemma add_cmd_found:
  "url \<noteq> [] \<Longrightarrow> truthy_str (parseTrackerUrl w url) \<Longrightarrow>
   fst (add_probe w (the (parseTrackerUrl w url)) platforms st) = Some fp \<Longrightarrow>
     add_cmd w url st
       = track_found w fp
           (snd (add_probe w (the (parseTrackerUrl w url)) platforms
                   (send_reply (LookingUp (the (parseTrackerUrl w url))) st)))"
proof -
  assume u: "url \<noteq> []" and t: "truthy_str (parseTrackerUrl w url)"
    and f: "fst (add_probe w (the (parseTrackerUrl w url)) platforms st) = Some fp"
  let ?pid = "the (parseTrackerUrl w url)"
  have "fst (add_probe w ?pid platforms (send_reply (LookingUp ?pid) st)) = Some fp"
    using f by (simp add: add_probe_after_reply)
  then show ?thesis
    using t u
    by (cases "add_probe w ?pid platforms (send_reply (LookingUp ?pid) st)")
       (simp add: add_cmd_def Let_def)
qed

lemma track_cmd_store:
  "(trackedPlayers (track_cmd w playerId st) = trackedPlayers st \<and>
    playersFile (track_cmd w playerId st) = playersFile st \<and>
    writes (track_cmd w playerId st) = writes st) \<or>
   (\<exists>fp. trackedPlayers (track_cmd w playerId st) = trackedPlayers st @ [fp] \<and>
    (\<forall>p \<in> set (trackedPlayers st).
       \<not> (truthy_str (personaId p) \<and> personaId p = personaId fp) \<and>
       \<not> (name p = name fp \<and> platform p = platform fp)) \<and>
    writes (track_cmd w playerId st) = writes st + 1 \<and>
    playersFile (track_cmd w playerId st)
      = (if write_ok w (writes st) then Some (trackedPlayers st @ [fp]) else playersFile st))"
proof (cases "playerId = []")
  case True
  then show ?thesis by (simp add: track_cmd_def send_reply_def)
next
  case False
  show ?thesis
  proof (cases "fst (track_probe w playerId platforms st)")
    case None
    then show ?thesis
      using False
      by (cases "track_probe w playerId platforms st")
         (use track_probe_store [of w playerId platforms st] in
           \<open>simp add: track_cmd_def send_reply_def\<close>)
  next
    case (Some fp)
    show ?thesis
      using track_found_store [of w fp "snd (track_probe w playerId platforms st)"]
      unfolding track_cmd_found [OF False Some] track_probe_store
      by blast
  qed
qed

lemma add_cmd_store:
  "(trackedPlayers (add_cmd w url st) = trackedPlayers st \<and>
    playersFile (add_cmd w url st) = playersFile st \<and>
    writes (add_cmd w url st) = writes st) \<or>
   (\<exists>fp. trackedPlayers (add_cmd w url st) = trackedPlayers st @ [fp] \<and>
    (\<forall>p \<in> set (trackedPlayers st).
       \<not> (truthy_str (personaId p) \<and> personaId p = personaId fp) \<and>
       \<not> (name p = name fp \<and> platform p = platform fp)) \<and>
    writes (add_cmd w url st) = writes st + 1 \<and>
    playersFile (add_cmd w url st)
      = (if write_ok w (writes st) then Some (trackedPlayers st @ [fp]) else playersFile st))"
proof (cases "url \<noteq> [] \<and> truthy_str (parseTrackerUrl w url)")
  case False
  then show ?thesis by (auto simp: add_cmd_def send_reply_def)
next
  case both: True
  then have u: "url \<noteq> []" and True: "truthy_str (parseTrackerUrl w url)" by simp_all
  let ?pid = "the (parseTrackerUrl w url)"
  let ?st0 = "send_reply (LookingUp ?pid) st"
  have st0: "trackedPlayers ?st0 = trackedPlayers st" "playersFile ?st0 = playersFile st"
    "writes ?st0 = writes st"
    by (simp_all add: send_reply_def)
  show ?thesis
  proof (cases "fst (add_probe w ?pid platforms st)")
    case None
    then have "fst (add_probe w ?pid platforms ?st0) = None"
      by (simp add: add_probe_after_reply)
    then show ?thesis
      using True u add_probe_store [of w ?pid platforms ?st0] st0
      by (cases "add_probe w ?pid platforms ?st0")
         (simp add: add_cmd_def Let_def send_reply_def)
  next
    case (Some fp)
    show ?thesis
      using track_found_store [of w fp "snd (add_probe w ?pid platforms ?st0)"]
      unfolding add_cmd_found [OF u True Some] add_probe_store st0
      by blast
  qed
qed


lemma untrack_cmd_store:
  "(trackedPlayers (untrack_cmd w playerId st) = trackedPlayers st \<and>
    playersFile (untrack_cmd w playerId st) = playersFile st \<and>
    writes (untrack_cmd w playerId st) = writes st) \<or>
   (writes (untrack_cmd w playerId st) = writes st + 1 \<and>
    playersFile (untrack_cmd w playerId st)
      = (if write_ok w (writes st) then Some (trackedPlayers (untrack_cmd w playerId st))
         else playersFile st))"
  by (cases "findIndex (untrack_match w playerId) (trackedPlayers st)")
     (simp_all add: untrack_cmd_def send_reply_def saveTrackedPlayers_def Let_def)

text \<open>
  C7. After an \<open>!add\<close>, \<open>!track\<close> or \<open>!untrack\<close> command that changed the tracked list,
  exactly one write of the players file was made, and when that write succeeded the
  file holds the list now in memory.
\<close>

theorem mutation_followed_by_save:
  "st' = add_cmd w arg st \<or> st' = track_cmd w arg st \<or> st' = untrack_cmd w arg st \<Longrightarrow>
   trackedPlayers st' \<noteq> trackedPlayers st \<Longrightarrow>
   writes st' = writes st + 1 \<and>
   (write_ok w (writes st) \<longrightarrow> playersFile st' = Some (trackedPlayers st'))"
  using add_cmd_store [of w arg st] track_cmd_store [of w arg st] untrack_cmd_store [of w arg st]
  by auto

lemma example_players2 [simp]:
  "name carol = ''Carol''" "platform carol = ''psn''" "personaId carol = Some ''2481313248''"
  "name zed = ''Zed''" "platform zed = ''pc''" "personaId zed = Some ''Alice_xbox''"
  "name bob2 = ''Bob''" "platform bob2 = ''pc''" "personaId bob2 = Some ''222''"
  "name carol_old = ''Carol''" "platform carol_old = ''psn''" "personaId carol_old = Some ''999''"
  by (simp_all add: carol_def zed_def bob2_def carol_old_def)

lemmas demo_eval = platforms_def do_fetch_def sleep_def worlds_sel demo_api_def
  recognizable_def body_bob2_def body_carol_def body_zed_def found_player_def str_or_def

lemma demo_track_carol:
  "fst (track_probe demo_world ''2481313248'' platforms st) = Some carol"
  by (simp add: demo_eval carol_def)

lemma demo_track_bob2:
  "fst (track_probe demo_world ''222'' platforms st) = Some bob2"
  by (simp add: demo_eval bob2_def)

lemma demo_track_zed:
  "fst (track_probe demo_world ''Alice_xbox'' platforms st) = Some zed"
  by (simp add: demo_eval zed_def)

lemma demo_url:
  "parseTrackerUrl demo_world ''https://site/bf6/profile/2481313248/overview'' = Some ''2481313248''"
  by (simp add: parseTrackerUrl_def worlds_sel pathParts_overview all_digits_iff)

lemma demo_add_carol:
  "fst (add_probe demo_world ''2481313248'' platforms st) = Some carol"
  by (simp add: demo_eval carol_def)

lemma two_tracked_sel [simp]:
  "trackedPlayers two_tracked = [bob, alice]" "playersFile two_tracked = Some [bob, alice]"
  "writes two_tracked = 0" "replies two_tracked = []" "requests two_tracked = []"
  "trackedPlayers three_tracked = [bob, alice, carol_old]" "replies three_tracked = []"
  "writes three_tracked = 0" "playersFile three_tracked = Some [bob, alice]"
  by (simp_all add: two_tracked_def three_tracked_def)

lemma demo_track_carol_run:
  "trackedPlayers (track_cmd demo_world ''2481313248'' two_tracked) = [bob, alice, carol]"
  "playersFile (track_cmd demo_world ''2481313248'' two_tracked) = Some [bob, alice, carol]"
  "writes (track_cmd demo_world ''2481313248'' two_tracked) = 1"
proof -
  have ne: "''2481313248'' \<noteq> []" by simp
  have no: "\<not> (\<exists>p \<in> set (trackedPlayers (snd (track_probe demo_world ''2481313248'' platforms two_tracked))).
      (truthy_str (personaId p) \<and> personaId p = personaId carol)
      \<or> (name p = name carol \<and> platform p = platform carol))"
    by (simp add: track_probe_store)
  from track_found_add [OF no, of demo_world]
  show "trackedPlayers (track_cmd demo_world ''2481313248'' two_tracked) = [bob, alice, carol]"
    "playersFile (track_cmd demo_world ''2481313248'' two_tracked) = Some [bob, alice, carol]"
    "writes (track_cmd demo_world ''2481313248'' two_tracked) = 1"
    unfolding track_cmd_found [OF ne demo_track_carol]
    by (simp_all add: track_probe_store) (simp add: worlds_sel)
qed

theorem mutation_followed_by_save_witness:
  "trackedPlayers (track_cmd demo_world ''2481313248'' two_tracked) \<noteq> trackedPlayers two_tracked \<and>
   write_ok demo_world (writes two_tracked) \<and>
   writes (track_cmd demo_world ''2481313248'' two_tracked) = writes two_tracked + 1 \<and>
   playersFile (track_cmd demo_world ''2481313248'' two_tracked) = Some [bob, alice, carol]"
proof -
  have ch: "trackedPlayers (track_cmd demo_world ''2481313248'' two_tracked) \<noteq> trackedPlayers two_tracked"
    by (simp add: demo_track_carol_run)
  have ok: "write_ok demo_world (writes two_tracked)"
    by (simp add: worlds_sel)
  have "track_cmd demo_world ''2481313248'' two_tracked = add_cmd demo_world ''2481313248'' two_tracked
      \<or> track_cmd demo_world ''2481313248'' two_tracked = track_cmd demo_world ''2481313248'' two_tracked
      \<or> track_cmd demo_world ''2481313248'' two_tracked = untrack_cmd demo_world ''2481313248'' two_tracked"
    by simp
  from mutation_followed_by_save [OF this ch] ch ok show ?thesis
    by (simp add: demo_track_carol_run)
qed


subsection \<open>Duplicates\<close>

lemma send_reply_sel:
  "replies (send_reply r st) = replies st @ [r]"
  "trackedPlayers (send_reply r st) = trackedPlayers st"
  "playersFile (send_reply r st) = playersFile st"
  "writes (send_reply r st) = writes st"
  "lastStats (send_reply r st) = lastStats st"
  by (simp_all add: send_reply_def)

lemma found_player_personaId:
  "playerId \<noteq> [] \<Longrightarrow> truthy_str (personaId (found_player d playerId plat))"
  by (simp add: found_player_def str_or_def)

lemma track_probe_found_personaId:
  "playerId \<noteq> [] \<Longrightarrow> fst (track_probe w playerId pls st) = Some fp \<Longrightarrow> truthy_str (personaId fp)"
proof (induction pls arbitrary: st)
  case Nil
  then show ?case by simp
next
  case (Cons plat rest)
  let ?r = "\<lparr>q_name = None, q_personaId = Some playerId, q_platform = plat\<rparr>"
  show ?case
  proof (cases "fetch w (length (requests st)) ?r")
    case (Body data)
    show ?thesis
    proof (cases "recognizable data")
      case True
      with Body Cons.prems show ?thesis
        by (auto simp: do_fetch_def found_player_personaId)
    next
      case False
      with Body Cons.prems Cons.IH show ?thesis by (simp add: do_fetch_def)
    qed
  qed (use Cons.prems Cons.IH in \<open>simp_all add: do_fetch_def\<close>)
qed

lemma playerKey_personaId: "truthy_str (personaId p) \<Longrightarrow> playerKey p = the (personaId p)"
  by (simp add: playerKey_def)

lemma same_key_same_personaId:
  "truthy_str (personaId p) \<Longrightarrow> truthy_str (personaId q) \<Longrightarrow> playerKey p = playerKey q \<Longrightarrow>
     personaId p = personaId q"
  by (cases "personaId p"; cases "personaId q") (simp_all add: playerKey_def)

text \<open>
  C4 (amended). When the player an \<open>!add\<close> or \<open>!track\<close> command looked up has the identity
  key of an already-tracked entry that has a \<open>personaId\<close>, the command replies that the
  player is already tracked, the tracked list is as before, and the players file is not
  written.
\<close>

theorem duplicate_is_rejected:
  "(playerId \<noteq> [] \<and> fst (track_probe w playerId platforms st) = Some fp \<and>
    (\<exists>p \<in> set (trackedPlayers st). truthy_str (personaId p) \<and> playerKey p = playerKey fp) \<longrightarrow>
      replies (track_cmd w playerId st)
        = replies st @ [AlreadyTracked (name fp) (toUpperCase w (platform fp))] \<and>
      trackedPlayers (track_cmd w playerId st) = trackedPlayers st \<and>
      playersFile (track_cmd w playerId st) = playersFile st \<and>
      writes (track_cmd w playerId st) = writes st) \<and>
   (url \<noteq> [] \<and> truthy_str (parseTrackerUrl w url) \<and>
    fst (add_probe w (the (parseTrackerUrl w url)) platforms st) = Some fp' \<and>
    (\<exists>p \<in> set (trackedPlayers st). truthy_str (personaId p) \<and> playerKey p = playerKey fp') \<longrightarrow>
      replies (add_cmd w url st)
        = replies st @ [LookingUp (the (parseTrackerUrl w url)),
                        AlreadyTracked (name fp') (toUpperCase w (platform fp'))] \<and>
      trackedPlayers (add_cmd w url st) = trackedPlayers st \<and>
      playersFile (add_cmd w url st) = playersFile st \<and>
      writes (add_cmd w url st) = writes st)"
proof (intro conjI impI; elim conjE)
  assume ne: "playerId \<noteq> []" and f: "fst (track_probe w playerId platforms st) = Some fp"
    and ex: "\<exists>p \<in> set (trackedPlayers st). truthy_str (personaId p) \<and> playerKey p = playerKey fp"
  let ?st1 = "snd (track_probe w playerId platforms st)"
  have t: "truthy_str (personaId fp)"
    using track_probe_found_personaId [OF ne f] .
  from ex t have "\<exists>p \<in> set (trackedPlayers ?st1).
        (truthy_str (personaId p) \<and> personaId p = personaId fp)
        \<or> (name p = name fp \<and> platform p = platform fp)"
    unfolding track_probe_store by (meson same_key_same_personaId)
  from track_found_reject [OF this, of w]
  have run: "track_cmd w playerId st
      = send_reply (AlreadyTracked (name fp) (toUpperCase w (platform fp))) ?st1"
    by (simp add: track_cmd_found [OF ne f])
  show "replies (track_cmd w playerId st)
        = replies st @ [AlreadyTracked (name fp) (toUpperCase w (platform fp))]"
    "trackedPlayers (track_cmd w playerId st) = trackedPlayers st"
    "playersFile (track_cmd w playerId st) = playersFile st"
    "writes (track_cmd w playerId st) = writes st"
    unfolding run by (simp_all add: send_reply_def track_probe_store)
next
  assume u: "url \<noteq> []" and tr: "truthy_str (parseTrackerUrl w url)"
    and f: "fst (add_probe w (the (parseTrackerUrl w url)) platforms st) = Some fp'"
    and ex: "\<exists>p \<in> set (trackedPlayers st). truthy_str (personaId p) \<and> playerKey p = playerKey fp'"
  let ?pid = "the (parseTrackerUrl w url)"
  let ?st0 = "send_reply (LookingUp ?pid) st"
  let ?st1 = "snd (add_probe w ?pid platforms ?st0)"
  from tr have ne: "?pid \<noteq> []" by (cases "parseTrackerUrl w url") simp_all
  have "fst (track_probe w ?pid platforms st) = Some fp'"
    using f probes_agree [of st st w ?pid platforms] by simp
  then have t: "truthy_str (personaId fp')"
    using track_probe_found_personaId [OF ne] by blast
  have keep: "trackedPlayers ?st1 = trackedPlayers st" "playersFile ?st1 = playersFile st"
    "writes ?st1 = writes st" "replies ?st1 = replies st @ [LookingUp ?pid]"
    by (simp_all add: add_probe_store send_reply_sel)
  from ex t have "\<exists>p \<in> set (trackedPlayers ?st1).
        (truthy_str (personaId p) \<and> personaId p = personaId fp')
        \<or> (name p = name fp' \<and> platform p = platform fp')"
    unfolding keep by (meson same_key_same_personaId)
  from track_found_reject [OF this, of w]
  have run: "add_cmd w url st
      = send_reply (AlreadyTracked (name fp') (toUpperCase w (platform fp'))) ?st1"
    by (simp add: add_cmd_found [OF u tr f])
  show "replies (add_cmd w url st)
        = replies st @ [LookingUp ?pid, AlreadyTracked (name fp') (toUpperCase w (platform fp'))]"
    "trackedPlayers (add_cmd w url st) = trackedPlayers st"
    "playersFile (add_cmd w url st) = playersFile st"
    "writes (add_cmd w url st) = writes st"
    unfolding run by (simp_all add: send_reply_sel keep)
qed

lemma renamed_tracked_sel [simp]:
  "trackedPlayers renamed_tracked = [alice, robert, caz]" "replies renamed_tracked = []"
  "writes renamed_tracked = 0" "playersFile renamed_tracked = Some [bob, alice]"
  "name robert = ''Robert''" "platform robert = ''xbox''" "personaId robert = Some ''222''"
  "name caz = ''Caz''" "platform caz = ''pc''" "personaId caz = Some ''2481313248''"
  by (simp_all add: renamed_tracked_def two_tracked_def robert_def caz_def)

theorem duplicate_is_rejected_witness:
  "''222'' \<noteq> [] \<and> fst (track_probe demo_world ''222'' platforms renamed_tracked) = Some bob2 \<and>
   (\<exists>p \<in> set (trackedPlayers renamed_tracked).
      truthy_str (personaId p) \<and> playerKey p = playerKey bob2) \<and>
   playerKey robert = playerKey bob2 \<and>
   list_all (\<lambda>p. \<not> (name p = name bob2 \<and> platform p = platform bob2))
     (trackedPlayers renamed_tracked) \<and>
   replies (track_cmd demo_world ''222'' renamed_tracked) = [AlreadyTracked ''Bob'' ''PC''] \<and>
   trackedPlayers (track_cmd demo_world ''222'' renamed_tracked) = [alice, robert, caz] \<and>
   playersFile (track_cmd demo_world ''222'' renamed_tracked) = playersFile renamed_tracked \<and>
   writes (track_cmd demo_world ''222'' renamed_tracked) = 0 \<and>
   ''https://site/bf6/profile/2481313248/overview'' \<noteq> [] \<and>
   truthy_str (parseTrackerUrl demo_world ''https://site/bf6/profile/2481313248/overview'') \<and>
   fst (add_probe demo_world
          (the (parseTrackerUrl demo_world ''https://site/bf6/profile/2481313248/overview''))
          platforms renamed_tracked) = Some carol \<and>
   (\<exists>p \<in> set (trackedPlayers renamed_tracked).
      truthy_str (personaId p) \<and> playerKey p = playerKey carol) \<and>
   playerKey caz = playerKey carol \<and>
   list_all (\<lambda>p. \<not> (name p = name carol \<and> platform p = platform carol))
     (trackedPlayers renamed_tracked) \<and>
   replies (add_cmd demo_world ''https://site/bf6/profile/2481313248/overview'' renamed_tracked)
     = [LookingUp ''2481313248'', AlreadyTracked ''Carol'' ''PSN''] \<and>
   trackedPlayers (add_cmd demo_world ''https://site/bf6/profile/2481313248/overview'' renamed_tracked)
     = [alice, robert, caz] \<and>
   playersFile (add_cmd demo_world ''https://site/bf6/profile/2481313248/overview'' renamed_tracked)
     = playersFile renamed_tracked \<and>
   writes (add_cmd demo_world ''https://site/bf6/profile/2481313248/overview'' renamed_tracked) = 0"
proof -
  let ?url = "''https://site/bf6/profile/2481313248/overview''"
  have k: "playerKey robert = playerKey bob2" "playerKey caz = playerKey carol"
    by (simp_all add: playerKey_def)
  have h1: "''222'' \<noteq> []" "fst (track_probe demo_world ''222'' platforms renamed_tracked) = Some bob2"
    "\<exists>p \<in> set (trackedPlayers renamed_tracked).
        truthy_str (personaId p) \<and> playerKey p = playerKey bob2"
    by (simp_all add: demo_track_bob2 k)
  have h2: "?url \<noteq> []" "truthy_str (parseTrackerUrl demo_world ?url)"
    "fst (add_probe demo_world (the (parseTrackerUrl demo_world ?url)) platforms renamed_tracked)
       = Some carol"
    "\<exists>p \<in> set (trackedPlayers renamed_tracked).
        truthy_str (personaId p) \<and> playerKey p = playerKey carol"
    by (simp_all add: demo_url demo_add_carol k)
  have d: "list_all (\<lambda>p. \<not> (name p = name bob2 \<and> platform p = platform bob2))
       (trackedPlayers renamed_tracked)"
    "list_all (\<lambda>p. \<not> (name p = name carol \<and> platform p = platform carol))
       (trackedPlayers renamed_tracked)"
    by simp_all
  from duplicate_is_rejected [where playerId = "''222''" and w = demo_world
      and st = renamed_tracked and fp = bob2] h1 k
  have r1: "replies (track_cmd demo_world ''222'' renamed_tracked) = [AlreadyTracked ''Bob'' ''PC'']"
    "trackedPlayers (track_cmd demo_world ''222'' renamed_tracked) = [alice, robert, caz]"
    "playersFile (track_cmd demo_world ''222'' renamed_tracked) = playersFile renamed_tracked"
    "writes (track_cmd demo_world ''222'' renamed_tracked) = 0"
    by (simp_all add: upper_platforms)
  from duplicate_is_rejected [where url = ?url and w = demo_world and st = renamed_tracked
      and fp' = carol] h2 k
  have r2: "replies (add_cmd demo_world ?url renamed_tracked)
     = [LookingUp ''2481313248'', AlreadyTracked ''Carol'' ''PSN'']"
    "trackedPlayers (add_cmd demo_world ?url renamed_tracked) = [alice, robert, caz]"
    "playersFile (add_cmd demo_world ?url renamed_tracked) = playersFile renamed_tracked"
    "writes (add_cmd demo_world ?url renamed_tracked) = 0"
    by (simp_all add: upper_platforms demo_url)
  from h1 h2 k d r1 r2 show ?thesis by blast
qed

lemma clash_tracked_sel:
  "trackedPlayers clash_tracked = [alice, alice_us]" "writes clash_tracked = 0"
  "replies clash_tracked = []"
  "name alice_us = ''Alice_''" "platform alice_us = ''xbox''" "personaId alice_us = None"
  by (simp_all add: clash_tracked_def alice_us_def)

lemma demo_track_zed_run:
  "trackedPlayers (track_cmd demo_world ''Alice_xbox'' clash_tracked) = [alice, alice_us, zed]"
  "playersFile (track_cmd demo_world ''Alice_xbox'' clash_tracked) = Some [alice, alice_us, zed]"
  "replies (track_cmd demo_world ''Alice_xbox'' clash_tracked)
     = [PlayerAdded ''Zed'' ''PC'' ''Alice_xbox'' 3]"
proof -
  have ne: "''Alice_xbox'' \<noteq> []" by simp
  have no: "alreadyTracked [alice, alice_us] zed = None"
    by (simp add: alreadyTracked_def clash_tracked_sel)
  have run: "track_cmd demo_world ''Alice_xbox'' clash_tracked
      = track_found demo_world zed
          (snd (track_probe demo_world ''Alice_xbox'' platforms clash_tracked))"
    by (rule track_cmd_found [OF ne demo_track_zed])
  show "trackedPlayers (track_cmd demo_world ''Alice_xbox'' clash_tracked) = [alice, alice_us, zed]"
    "playersFile (track_cmd demo_world ''Alice_xbox'' clash_tracked) = Some [alice, alice_us, zed]"
    "replies (track_cmd demo_world ''Alice_xbox'' clash_tracked)
       = [PlayerAdded ''Zed'' ''PC'' ''Alice_xbox'' 3]"
    unfolding run
    by (simp_all add: track_found_def track_probe_store clash_tracked_sel no Let_def
        saveTrackedPlayers_def send_reply_sel str_or_def upper_platforms)
       (simp add: worlds_sel)
qed

text \<open>
  C4 as stated fails: \<open>alice\<close> and \<open>alice_us\<close> are tracked without a \<open>personaId\<close>, so the
  identity key of each is made of name and platform: \<open>Alice_xbox\<close> for \<open>alice\<close> with the
  separator of the cache key, and the same text for \<open>alice_us\<close> by plain concatenation.
  \<open>!track Alice_xbox\<close> looks up a player whose \<open>personaId\<close>, and so whose identity key, is
  that text; the command adds the player and saves the longer list.
\<close>

theorem identity_key_collision_is_added:
  "fst (track_probe demo_world ''Alice_xbox'' platforms clash_tracked) = Some zed \<and>
   alice \<in> set (trackedPlayers clash_tracked) \<and>
   alice_us \<in> set (trackedPlayers clash_tracked) \<and>
   playerKey zed = playerKey alice \<and>
   playerKey zed = name alice_us @ platform alice_us \<and>
   trackedPlayers (track_cmd demo_world ''Alice_xbox'' clash_tracked) = [alice, alice_us, zed] \<and>
   trackedPlayers (track_cmd demo_world ''Alice_xbox'' clash_tracked)
     \<noteq> trackedPlayers clash_tracked \<and>
   playersFile (track_cmd demo_world ''Alice_xbox'' clash_tracked) = Some [alice, alice_us, zed] \<and>
   replies (track_cmd demo_world ''Alice_xbox'' clash_tracked)
     = [PlayerAdded ''Zed'' ''PC'' ''Alice_xbox'' 3]"
  by (simp add: demo_track_zed_run demo_track_zed playerKey_def clash_tracked_sel)

subsection \<open>Uniqueness of tracked players\<close>

lemma unique_players_append:
  "unique_players (ps @ [q]) \<longleftrightarrow>
     unique_players ps \<and> (\<forall>p \<in> set ps. \<not> same_persona p q \<and> \<not> same_name_platform p q)"
  by (induction ps) (auto simp: list_all_iff)

lemma unique_players_pairwise:
  "unique_players ps \<longleftrightarrow>
     (\<forall>i j. i < j \<and> j < length ps \<longrightarrow>
        \<not> same_persona (ps ! i) (ps ! j) \<and> \<not> same_name_platform (ps ! i) (ps ! j))"
proof (induction ps)
  case Nil
  then show ?case by simp
next
  case (Cons p ps)
  have "(\<forall>i j. i < j \<and> j < length (p # ps) \<longrightarrow>
        \<not> same_persona ((p # ps) ! i) ((p # ps) ! j)
        \<and> \<not> same_name_platform ((p # ps) ! i) ((p # ps) ! j))
    \<longleftrightarrow> (\<forall>j < length ps. \<not> same_persona p (ps ! j) \<and> \<not> same_name_platform p (ps ! j))
       \<and> (\<forall>i j. i < j \<and> j < length ps \<longrightarrow>
        \<not> same_persona (ps ! i) (ps ! j) \<and> \<not> same_name_platform (ps ! i) (ps ! j))"
    (is "?L \<longleftrightarrow> ?A \<and> ?B")
  proof
    assume l: ?L
    have ?A
    proof (intro allI impI)
      fix j assume "j < length ps"
      with l [rule_format, of 0 "Suc j"] show "\<not> same_persona p (ps ! j) \<and> \<not> same_name_platform p (ps ! j)"
        by simp
    qed
    moreover have ?B
    proof (intro allI impI)
      fix i j assume "i < j \<and> j < length ps"
      with l [rule_format, of "Suc i" "Suc j"]
      show "\<not> same_persona (ps ! i) (ps ! j) \<and> \<not> same_name_platform (ps ! i) (ps ! j)"
        by simp
    qed
    ultimately show "?A \<and> ?B" ..
  next
    assume ab: "?A \<and> ?B"
    show ?L
    proof (intro allI impI)
      fix i j assume ij: "i < j \<and> j < length (p # ps)"
      then obtain j' where j': "j = Suc j'" "j' < length ps"
        by (cases j) auto
      show "\<not> same_persona ((p # ps) ! i) ((p # ps) ! j)
        \<and> \<not> same_name_platform ((p # ps) ! i) ((p # ps) ! j)"
      proof (cases i)
        case 0
        with ab j' show ?thesis by simp
      next
        case (Suc i')
        with ij j' have "i' < j' \<and> j' < length ps" by simp
        with ab Suc j' show ?thesis by simp
      qed
    qed
  qed
  with Cons.IH show ?case
    by (simp add: list_all_length)
qed

text \<open>
  C10 (amended). If no two tracked entries share a \<open>personaId\<close> and no two share both name
  and platform, the same holds after any \<open>!add\<close> and after any \<open>!track\<close> command. A
  looked-up player whose name and platform are those of a tracked entry is rejected as
  already tracked, the list staying as it is, whatever the two \<open>personaId\<close>s are.
\<close>

theorem add_track_keep_players_unique:
  "(unique_players (trackedPlayers st) \<longrightarrow>
      unique_players (trackedPlayers (add_cmd w url st)) \<and>
      unique_players (trackedPlayers (track_cmd w playerId st))) \<and>
   (playerId \<noteq> [] \<and> fst (track_probe w playerId platforms st) = Some fp \<and>
    (\<exists>p \<in> set (trackedPlayers st). name p = name fp \<and> platform p = platform fp) \<longrightarrow>
      trackedPlayers (track_cmd w playerId st) = trackedPlayers st \<and>
      replies (track_cmd w playerId st)
        = replies st @ [AlreadyTracked (name fp) (toUpperCase w (platform fp))]) \<and>
   (url \<noteq> [] \<and> truthy_str (parseTrackerUrl w url) \<and>
    fst (add_probe w (the (parseTrackerUrl w url)) platforms st) = Some fp' \<and>
    (\<exists>p \<in> set (trackedPlayers st). name p = name fp' \<and> platform p = platform fp') \<longrightarrow>
      trackedPlayers (add_cmd w url st) = trackedPlayers st \<and>
      replies (add_cmd w url st)
        = replies st @ [LookingUp (the (parseTrackerUrl w url)),
                        AlreadyTracked (name fp') (toUpperCase w (platform fp'))])"
proof (intro conjI impI; (elim conjE)?)
  assume u: "unique_players (trackedPlayers st)"
  from add_cmd_store [of w url st] u
  show "unique_players (trackedPlayers (add_cmd w url st))"
    by (auto simp: unique_players_append same_persona_def same_name_platform_def)
  from track_cmd_store [of w playerId st] u
  show "unique_players (trackedPlayers (track_cmd w playerId st))"
    by (auto simp: unique_players_append same_persona_def same_name_platform_def)
next
  assume ne: "playerId \<noteq> []" and f: "fst (track_probe w playerId platforms st) = Some fp"
    and ex: "\<exists>p \<in> set (trackedPlayers st). name p = name fp \<and> platform p = platform fp"
  let ?st1 = "snd (track_probe w playerId platforms st)"
  from ex have "\<exists>p \<in> set (trackedPlayers ?st1).
        (truthy_str (personaId p) \<and> personaId p = personaId fp)
        \<or> (name p = name fp \<and> platform p = platform fp)"
    unfolding track_probe_store by blast
  from track_found_reject [OF this, of w]
  have run: "track_cmd w playerId st
      = send_reply (AlreadyTracked (name fp) (toUpperCase w (platform fp))) ?st1"
    by (simp add: track_cmd_found [OF ne f])
  show "trackedPlayers (track_cmd w playerId st) = trackedPlayers st"
    "replies (track_cmd w playerId st)
        = replies st @ [AlreadyTracked (name fp) (toUpperCase w (platform fp))]"
    unfolding run by (simp_all add: send_reply_sel track_probe_store)
next
  assume u: "url \<noteq> []" and tr: "truthy_str (parseTrackerUrl w url)"
    and f: "fst (add_probe w (the (parseTrackerUrl w url)) platforms st) = Some fp'"
    and ex: "\<exists>p \<in> set (trackedPlayers st). name p = name fp' \<and> platform p = platform fp'"
  let ?pid = "the (parseTrackerUrl w url)"
  let ?st0 = "send_reply (LookingUp ?pid) st"
  let ?st1 = "snd (add_probe w ?pid platforms ?st0)"
  have keep: "trackedPlayers ?st1 = trackedPlayers st"
    "replies ?st1 = replies st @ [LookingUp ?pid]"
    by (simp_all add: add_probe_store send_reply_sel)
  from ex have "\<exists>p \<in> set (trackedPlayers ?st1).
        (truthy_str (personaId p) \<and> personaId p = personaId fp')
        \<or> (name p = name fp' \<and> platform p = platform fp')"
    unfolding keep by blast
  from track_found_reject [OF this, of w]
  have run: "add_cmd w url st
      = send_reply (AlreadyTracked (name fp') (toUpperCase w (platform fp'))) ?st1"
    by (simp add: add_cmd_found [OF u tr f])
  show "trackedPlayers (add_cmd w url st) = trackedPlayers st"
    "replies (add_cmd w url st)
        = replies st @ [LookingUp ?pid, AlreadyTracked (name fp') (toUpperCase w (platform fp'))]"
    unfolding run by (simp_all add: send_reply_sel keep)
qed

lemma demo_add_carol_run:
  "trackedPlayers (add_cmd demo_world ''https://site/bf6/profile/2481313248/overview'' two_tracked)
     = [bob, alice, carol]"
proof -
  let ?url = "''https://site/bf6/profile/2481313248/overview''"
  let ?st1 = "snd (add_probe demo_world ''2481313248'' platforms (send_reply (LookingUp ''2481313248'') two_tracked))"
  have no: "\<not> (\<exists>p \<in> set (trackedPlayers ?st1).
      (truthy_str (personaId p) \<and> personaId p = personaId carol)
      \<or> (name p = name carol \<and> platform p = platform carol))"
    by (simp add: add_probe_store send_reply_sel)
  have "add_cmd demo_world ?url two_tracked = track_found demo_world carol ?st1"
    using add_cmd_found [of ?url demo_world two_tracked carol]
    by (simp add: demo_url demo_add_carol)
  with track_found_add [OF no, of demo_world] show ?thesis
    by (simp add: add_probe_store send_reply_sel)
qed

theorem add_track_keep_players_unique_witness:
  "unique_players (trackedPlayers two_tracked) \<and>
   trackedPlayers (add_cmd demo_world ''https://site/bf6/profile/2481313248/overview'' two_tracked)
     = [bob, alice, carol] \<and>
   unique_players
     (trackedPlayers (add_cmd demo_world ''https://site/bf6/profile/2481313248/overview'' two_tracked)) \<and>
   unique_players (trackedPlayers (track_cmd demo_world ''222'' two_tracked)) \<and>
   ''222'' \<noteq> [] \<and> fst (track_probe demo_world ''222'' platforms two_tracked) = Some bob2 \<and>
   (\<exists>p \<in> set (trackedPlayers two_tracked).
      name p = name bob2 \<and> platform p = platform bob2 \<and> personaId p \<noteq> personaId bob2
      \<and> playerKey p \<noteq> playerKey bob2) \<and>
   trackedPlayers (track_cmd demo_world ''222'' two_tracked) = [bob, alice] \<and>
   replies (track_cmd demo_world ''222'' two_tracked) = [AlreadyTracked ''Bob'' ''PC''] \<and>
   (\<exists>p \<in> set (trackedPlayers three_tracked).
      name p = name carol \<and> platform p = platform carol \<and> personaId p \<noteq> personaId carol
      \<and> playerKey p \<noteq> playerKey carol) \<and>
   trackedPlayers (add_cmd demo_world ''https://site/bf6/profile/2481313248/overview'' three_tracked)
     = [bob, alice, carol_old] \<and>
   replies (add_cmd demo_world ''https://site/bf6/profile/2481313248/overview'' three_tracked)
     = [LookingUp ''2481313248'', AlreadyTracked ''Carol'' ''PSN'']"
proof -
  let ?url = "''https://site/bf6/profile/2481313248/overview''"
  have u: "unique_players (trackedPlayers two_tracked)"
    by (simp add: same_persona_def same_name_platform_def)
  have d: "\<exists>p \<in> set (trackedPlayers two_tracked).
      name p = name bob2 \<and> platform p = platform bob2 \<and> personaId p \<noteq> personaId bob2
      \<and> playerKey p \<noteq> playerKey bob2"
    "\<exists>p \<in> set (trackedPlayers three_tracked).
      name p = name carol \<and> platform p = platform carol \<and> personaId p \<noteq> personaId carol
      \<and> playerKey p \<noteq> playerKey carol"
    by (simp_all add: playerKey_def)
  have h1: "''222'' \<noteq> []" "fst (track_probe demo_world ''222'' platforms two_tracked) = Some bob2"
    "\<exists>p \<in> set (trackedPlayers two_tracked). name p = name bob2 \<and> platform p = platform bob2"
    by (simp_all add: demo_track_bob2)
  have h2: "?url \<noteq> []" "truthy_str (parseTrackerUrl demo_world ?url)"
    "fst (add_probe demo_world (the (parseTrackerUrl demo_world ?url)) platforms three_tracked)
       = Some carol"
    "\<exists>p \<in> set (trackedPlayers three_tracked). name p = name carol \<and> platform p = platform carol"
    by (simp_all add: demo_url demo_add_carol)
  note a = add_track_keep_players_unique [where st = two_tracked and w = demo_world
      and url = ?url and playerId = "''222''" and fp = bob2]
  note b = add_track_keep_players_unique [where st = three_tracked and w = demo_world
      and url = ?url and fp' = carol]
  from a u h1 have r1:
    "unique_players (trackedPlayers (add_cmd demo_world ?url two_tracked))"
    "unique_players (trackedPlayers (track_cmd demo_world ''222'' two_tracked))"
    "trackedPlayers (track_cmd demo_world ''222'' two_tracked) = [bob, alice]"
    "replies (track_cmd demo_world ''222'' two_tracked) = [AlreadyTracked ''Bob'' ''PC'']"
    by (simp_all add: upper_platforms)
  from b h2 have r2:
    "trackedPlayers (add_cmd demo_world ?url three_tracked) = [bob, alice, carol_old]"
    "replies (add_cmd demo_world ?url three_tracked)
       = [LookingUp ''2481313248'', AlreadyTracked ''Carol'' ''PSN'']"
    by (simp_all add: upper_platforms demo_url)
  from u h1 d r1 r2 demo_add_carol_run show ?thesis by blast
qed

text \<open>
  C10 as stated fails in its comparison with identity keys: the invariant of the two
  commands does not keep identity keys apart. \<open>alice\<close> and \<open>alice_us\<close> are tracked, no two
  entries sharing a \<open>personaId\<close>, a name and platform, or an identity key. After
  \<open>!track Alice_xbox\<close> the list has \<open>zed\<close> as well: still no two entries share a
  \<open>personaId\<close> or a name and platform, but \<open>alice\<close> and \<open>zed\<close> have the same identity key.
\<close>

theorem unique_players_share_identity_key:
  "unique_players (trackedPlayers clash_tracked) \<and>
   distinct (map playerKey (trackedPlayers clash_tracked)) \<and>
   trackedPlayers (track_cmd demo_world ''Alice_xbox'' clash_tracked) = [alice, alice_us, zed] \<and>
   unique_players (trackedPlayers (track_cmd demo_world ''Alice_xbox'' clash_tracked)) \<and>
   alice \<noteq> zed \<and> playerKey alice = playerKey zed \<and>
   \<not> distinct (map playerKey (trackedPlayers (track_cmd demo_world ''Alice_xbox'' clash_tracked)))"
proof -
  have k: "playerKey alice = ''Alice_xbox''" "playerKey alice_us = ''Alice__xbox''"
    "playerKey zed = ''Alice_xbox''"
    by (simp_all add: playerKey_def clash_tracked_sel)
  have "alice \<noteq> zed"
    by (simp add: alice_def zed_def)
  then show ?thesis
    unfolding demo_track_zed_run
    by (simp add: clash_tracked_sel k same_persona_def same_name_platform_def)
qed

subsection \<open>Search\<close>

lemma search_loop_spec:
  "map platform (fst (search_loop w nm pls acc st))
     = map platform acc
       @ map fst (filter (\<lambda>(plat, i). answers_player
             (fetch w (length (requests st) + i)
                \<lparr>q_name = Some nm, q_personaId = None, q_platform = plat\<rparr>))
           (zip pls [0 ..< length pls])) \<and>
   requests (snd (search_loop w nm pls acc st))
     = requests st @ map (\<lambda>plat. \<lparr>q_name = Some nm, q_personaId = None, q_platform = plat\<rparr>) pls"
proof (induction pls arbitrary: acc st)
  case Nil
  then show ?case by simp
next
  case (Cons plat rest)
  let ?r = "\<lambda>plat. \<lparr>q_name = Some nm, q_personaId = None, q_platform = plat\<rparr>"
  let ?st1 = "st\<lparr>requests := requests st @ [?r plat]\<rparr>"
  have shift: "filter (\<lambda>(pl, i). answers_player (fetch w (length (requests st) + i) (?r pl)))
          (zip (plat # rest) [0 ..< length (plat # rest)])
      = (if answers_player (fetch w (length (requests st)) (?r plat)) then [(plat, 0)] else [])
        @ map (\<lambda>(pl, i). (pl, Suc i))
            (filter (\<lambda>(pl, i). answers_player (fetch w (Suc (length (requests st)) + i) (?r pl)))
               (zip rest [0 ..< length rest]))"
  proof -
    have "[0 ..< length (plat # rest)] = 0 # map Suc [0 ..< length rest]"
      by (simp only: length_Cons upt_conv_Cons [OF zero_less_Suc] map_Suc_upt)
    then show ?thesis
      by (simp add: zip_map2 filter_map o_def split_def)
  qed
  have ih: "\<And>acc' k. map platform (fst (search_loop w nm rest acc' (?st1\<lparr>slept := k\<rparr>)))
       = map platform acc'
         @ map fst (filter (\<lambda>(pl, i). answers_player (fetch w (Suc (length (requests st)) + i) (?r pl)))
             (zip rest [0 ..< length rest])) \<and>
     requests (snd (search_loop w nm rest acc' (?st1\<lparr>slept := k\<rparr>)))
       = requests st @ map ?r (plat # rest)"
    using Cons.IH by simp
  have ih0: "\<And>acc'. map platform (fst (search_loop w nm rest acc' ?st1))
       = map platform acc'
         @ map fst (filter (\<lambda>(pl, i). answers_player (fetch w (Suc (length (requests st)) + i) (?r pl)))
             (zip rest [0 ..< length rest])) \<and>
     requests (snd (search_loop w nm rest acc' ?st1))
       = requests st @ map ?r (plat # rest)"
    using Cons.IH by simp
  have fsts: "\<And>xs. map fst (map (\<lambda>(pl, i). (pl, Suc i)) xs) = map fst (xs :: (string \<times> nat) list)"
    by (simp add: split_def)
  show ?case
  proof (cases "fetch w (length (requests st)) (?r plat)")
    case (Body data)
    show ?thesis
    proof (cases "recognizable data")
      case True
      then have "answers_player (Body data)"
        by (cases data) (simp_all add: answers_player_def recognizable_def)
      with Body True show ?thesis
        unfolding shift
        by (simp add: do_fetch_def sleep_def ih fsts search_entry_def del: upt_Suc)
    next
      case False
      then have "\<not> answers_player (Body data)"
        by (cases data) (simp_all add: answers_player_def recognizable_def)
      with Body False show ?thesis
        unfolding shift
        by (simp add: do_fetch_def sleep_def ih fsts del: upt_Suc)
    qed
  qed (unfold shift, simp_all add: do_fetch_def sleep_def ih ih0 fsts answers_player_def del: upt_Suc)
qed

text \<open>
  C6 (amended). For every name, \<open>searchPlayers\<close> asks the three platforms \<open>pc\<close>, \<open>xbox\<close>,
  \<open>psn\<close> in this order, whatever the answers are (a fetch that throws does not stop the
  search), and returns at most one entry per platform, in the same order: the entry of
  a platform is there exactly when its fetch answered 2xx with a truthy JSON body that
  has a non-empty \<open>userName\<close>, \<open>name\<close> or \<open>personaId\<close>.
\<close>

theorem searchPlayers_entries:
  "map platform (fst (searchPlayers w playerName st))
     = (if answers_player (fetch w (length (requests st))
              \<lparr>q_name = Some playerName, q_personaId = None, q_platform = ''pc''\<rparr>)
        then [''pc''] else [])
       @ (if answers_player (fetch w (length (requests st) + 1)
              \<lparr>q_name = Some playerName, q_personaId = None, q_platform = ''xbox''\<rparr>)
          then [''xbox''] else [])
       @ (if answers_player (fetch w (length (requests st) + 2)
              \<lparr>q_name = Some playerName, q_personaId = None, q_platform = ''psn''\<rparr>)
          then [''psn''] else []) \<and>
   requests (snd (searchPlayers w playerName st))
     = requests st
       @ [\<lparr>q_name = Some playerName, q_personaId = None, q_platform = ''pc''\<rparr>,
          \<lparr>q_name = Some playerName, q_personaId = None, q_platform = ''xbox''\<rparr>,
          \<lparr>q_name = Some playerName, q_personaId = None, q_platform = ''psn''\<rparr>]"
proof -
  have idx: "[0 ..< 3] = [0, 1, 2]"
    by (simp add: upt_rec)
  show ?thesis
    using search_loop_spec [of w playerName platforms "[]" st]
    by (simp add: searchPlayers_def platforms_def idx)
qed

lemmas search_eval = worlds_sel search_api_def answers_player_def
  defines_player_def body_carol_def body_empty_name_def

theorem searchPlayers_entries_witness:
  "\<not> answers_player (fetch search_world 0
        \<lparr>q_name = Some ''Carol'', q_personaId = None, q_platform = ''pc''\<rparr>) \<and>
   answers_player (fetch search_world 1
        \<lparr>q_name = Some ''Carol'', q_personaId = None, q_platform = ''xbox''\<rparr>) \<and>
   \<not> answers_player (fetch search_world 2
        \<lparr>q_name = Some ''Carol'', q_personaId = None, q_platform = ''psn''\<rparr>) \<and>
   map platform (fst (searchPlayers search_world ''Carol'' two_tracked)) = [''xbox''] \<and>
   map q_platform (requests (snd (searchPlayers search_world ''Carol'' two_tracked)))
     = [''pc'', ''xbox'', ''psn'']"
  using searchPlayers_entries [of search_world "''Carol''" two_tracked]
  by (simp add: search_eval)

text \<open>
  C6 as stated fails: the \<open>psn\<close> answer is 2xx with a body that defines \<open>userName\<close> (as
  the empty string), and the result has no \<open>psn\<close> entry.
\<close>

theorem searchPlayers_defined_but_empty:
  "fetch search_world (length (requests two_tracked) + 2)
       \<lparr>q_name = Some ''Carol'', q_personaId = None, q_platform = ''psn''\<rparr>
     = Body (Some body_empty_name) \<and>
   sfield body_empty_name ''userName'' = Some [] \<and>
   defines_player (Body (Some body_empty_name)) \<and>
   ''psn'' \<notin> set (map platform (fst (searchPlayers search_world ''Carol'' two_tracked)))"
proof -
  have "map platform (fst (searchPlayers search_world ''Carol'' two_tracked)) = [''xbox'']"
    by (simp add: searchPlayers_def platforms_def do_fetch_def sleep_def worlds_sel search_api_def recognizable_def body_carol_def body_empty_name_def
        search_entry_def)
  then show ?thesis
    by (simp add: search_eval)
qed

subsection \<open>Poll pass\<close>

















lemma two_tracked_poll [simp]:
  "lastStats two_tracked ''Alice_xbox'' = Some stats_a" "lastStats two_tracked ''111'' = Some stats_a"
  "sends two_tracked = 0" "posted two_tracked = []"
  by (simp_all add: two_tracked_def)





end
